theory Spec2Isabelle
  imports Complex_Main "HOL-Library.Word"
begin

section \<open>Values shared by the wallet scripts\<close>

text \<open>
  The repository holds four console scripts with the same linear flow: the Solflare script
  (\<^verbatim>\<open>src/solfare.ts\<close>), two Phantom scripts (the two parts of
  \<^verbatim>\<open>src/phantom_not_working.ts\<close>) and the MetaMask script with its console front end.
  A \<^verbatim>\<open>Uint8Array\<close> is a list of bytes.  A JavaScript string is a \<^typ>\<open>string\<close>; its
  characters are the code units below 256, which covers every literal of the scripts.
  Console output is not part of the model.
\<close>

type_synonym bytes = "8 word list"

subsection \<open>JavaScript built-ins\<close>

text \<open>\<^verbatim>\<open>x || d\<close> on an optional string: \<^verbatim>\<open>undefined\<close> and the empty string are falsy.\<close>

definition js_or :: "string option \<Rightarrow> string \<Rightarrow> string" where
  "js_or x d = (case x of None \<Rightarrow> d | Some s \<Rightarrow> if s = [] then d else s)"

text \<open>\<^verbatim>\<open>x || y\<close> where \<^verbatim>\<open>y\<close> may be \<^verbatim>\<open>undefined\<close> as well.\<close>

definition js_or_opt :: "string option \<Rightarrow> string option \<Rightarrow> string option" where
  "js_or_opt x y = (case x of None \<Rightarrow> y | Some s \<Rightarrow> if s = [] then y else Some s)"

text \<open>
  \<^verbatim>\<open>slice(start, end)\<close> of strings and typed arrays: a negative index counts from the
  end, both indices are clamped to the length, and an empty range gives the empty sequence.
\<close>

definition js_slice :: "'a list \<Rightarrow> int \<Rightarrow> int \<Rightarrow> 'a list" where
  "js_slice xs start fin =
     (let len = int (length xs);
          lo = (if start < 0 then max (len + start) 0 else min start len);
          hi = (if fin < 0 then max (len + fin) 0 else min fin len)
      in take (nat (hi - lo)) (drop (nat lo) xs))"

text \<open>\<^verbatim>\<open>slice(start)\<close>: the end defaults to the length.\<close>

definition js_slice_from :: "'a list \<Rightarrow> int \<Rightarrow> 'a list" where
  "js_slice_from xs start = js_slice xs start (int (length xs))"

text \<open>The decimal digits of a non-negative integer, as \<^verbatim>\<open>toString()\<close> prints them.\<close>

definition digit_char :: "nat \<Rightarrow> char" where
  "digit_char d = ''0123456789'' ! (d mod 10)"

fun decimal :: "nat \<Rightarrow> string" where
  "decimal n =
     (if n < 10 then [digit_char n]
      else decimal (n div 10) @ [digit_char (n mod 10)])"

declare decimal.simps [simp del]

definition decimal_int :: "int \<Rightarrow> string" where
  "decimal_int i = (if i < 0 then CHR ''-'' # decimal (nat (- i)) else decimal (nat i))"

subsection \<open>\<^verbatim>\<open>JSON.stringify\<close>\<close>

text \<open>
  The JSON values the scripts serialise.  An object is the list of its properties in
  insertion order, which is the order \<^verbatim>\<open>JSON.stringify\<close> writes them in (no key of
  the scripts is an array index).
\<close>

datatype json =
    JNum int
  | JStr string
  | JArr "json list"
  | JObj "(string \<times> json) list"

definition hex_digit :: "nat \<Rightarrow> char" where
  "hex_digit d = ''0123456789abcdef'' ! (d mod 16)"

text \<open>\<^verbatim>\<open>QuoteJSONString\<close>: the two-character escapes, \<^verbatim>\<open>\u00XX\<close> for the other control
  characters, every other code unit as it is.\<close>

definition json_escape :: "char \<Rightarrow> string" where
  "json_escape c =
     (let n = (of_char c :: nat) in
      if n = 8 then [CHR 0x5C, CHR ''b'']
      else if n = 9 then [CHR 0x5C, CHR ''t'']
      else if n = 10 then [CHR 0x5C, CHR ''n'']
      else if n = 12 then [CHR 0x5C, CHR ''f'']
      else if n = 13 then [CHR 0x5C, CHR ''r'']
      else if n = 34 then [CHR 0x5C, CHR 0x22]
      else if n = 92 then [CHR 0x5C, CHR 0x5C]
      else if n < 32 then [CHR 0x5C, CHR ''u'', CHR ''0'', CHR ''0'', hex_digit (n div 16), hex_digit (n mod 16)]
      else [c])"

definition json_quote :: "string \<Rightarrow> string" where
  "json_quote s = CHR 0x22 # concat (map json_escape s) @ [CHR 0x22]"

fun join :: "string \<Rightarrow> string list \<Rightarrow> string" where
  "join sep [] = []"
| "join sep [x] = x"
| "join sep (x # y # ys) = x @ sep @ join sep (y # ys)"

text \<open>
  \<^verbatim>\<open>SerializeJSONProperty\<close> with its two helpers for arrays and objects: \<open>gap\<close> is the
  indentation unit and \<open>ind\<close> the current indentation.
\<close>

fun json_value :: "string \<Rightarrow> string \<Rightarrow> json \<Rightarrow> string"
  and json_elements :: "string \<Rightarrow> string \<Rightarrow> json list \<Rightarrow> string list"
  and json_properties :: "string \<Rightarrow> string \<Rightarrow> (string \<times> json) list \<Rightarrow> string list" where
  "json_value gap ind (JNum i) = decimal_int i"
| "json_value gap ind (JStr s) = json_quote s"
| "json_value gap ind (JArr xs) =
     (let partial = json_elements gap (ind @ gap) xs in
      if partial = [] then ''[]''
      else if gap = [] then ''['' @ join '','' partial @ '']''
      else ''['' @ ''\<newline>'' @ (ind @ gap) @ join ('','' @ ''\<newline>'' @ (ind @ gap)) partial
           @ ''\<newline>'' @ ind @ '']'')"
| "json_value gap ind (JObj kvs) =
     (let partial = json_properties gap (ind @ gap) kvs in
      if partial = [] then ''{}''
      else if gap = [] then ''{'' @ join '','' partial @ ''}''
      else ''{'' @ ''\<newline>'' @ (ind @ gap) @ join ('','' @ ''\<newline>'' @ (ind @ gap)) partial
           @ ''\<newline>'' @ ind @ ''}'')"
| "json_elements gap ind [] = []"
| "json_elements gap ind (x # xs) = json_value gap ind x # json_elements gap ind xs"
| "json_properties gap ind [] = []"
| "json_properties gap ind (kv # kvs) =
     (json_quote (fst kv) @ '':'' @ (if gap = [] then [] else '' '') @ json_value gap ind (snd kv))
       # json_properties gap ind kvs"

text \<open>\<^verbatim>\<open>JSON.stringify(value, null, space)\<close>; \<open>space = 0\<close> is the call with one argument.\<close>

definition JSON_stringify :: "json \<Rightarrow> nat \<Rightarrow> string" where
  "JSON_stringify v space = json_value (replicate (min space 10) CHR '' '') [] v"

section \<open>Protobuf messages and the external libraries\<close>

text \<open>
  The messages of \<^verbatim>\<open>cosmjs-types\<close> as the scripts fill them with \<^verbatim>\<open>fromPartial\<close>:
  each record lists the fields a script sets, every other field keeps its protobuf default.
  A \<^verbatim>\<open>bigint\<close> or an account number is a natural number.
\<close>

record Coin =
  denom :: string
  amount :: string

record MsgSend =
  fromAddress :: string
  toAddress :: string
  send_amount :: "Coin list"

record Any =
  typeUrl :: string
  any_value :: bytes

record TxBody =
  messages :: "Any list"
  memo :: string

datatype SignMode = SIGN_MODE_DIRECT | SIGN_MODE_EIP_191

record SignerInfo =
  publicKey :: Any
  modeInfo :: SignMode
  sequence :: nat

record Fee =
  fee_amount :: "Coin list"
  gasLimit :: nat

record AuthInfo =
  signerInfos :: "SignerInfo list"
  fee :: Fee

record SignDoc =
  sd_bodyBytes :: bytes
  sd_authInfoBytes :: bytes
  sd_chainId :: string
  sd_accountNumber :: nat

record TxRaw =
  bodyBytes :: bytes
  authInfoBytes :: bytes
  signatures :: "bytes list"

text \<open>
  Hashing, bech32, base64, hex, the protobuf encoders and the \<^verbatim>\<open>ethers\<close> helpers are
  imported packages, not code of the repository.  The scripts are modelled over an arbitrary
  implementation of them, so every theorem holds whatever these functions compute.
  \<open>fromHex\<close> and \<open>recoverPublicKey\<close> are applied to text a wallet returns and throw on
  malformed input; the other functions are total on the values the scripts pass them.
  \<open>utf8_reencode\<close> is \<^verbatim>\<open>new TextEncoder().encode(Buffer.from(b).toString())\<close>: the
  bytes decoded as UTF-8 into a string and the string encoded again.
\<close>

record libs =
  sha256 :: "bytes \<Rightarrow> bytes"
  ripemd160 :: "bytes \<Rightarrow> bytes"
  bech32_toWords :: "bytes \<Rightarrow> nat list"
  bech32_encode :: "string \<Rightarrow> nat list \<Rightarrow> string"
  toBase64 :: "bytes \<Rightarrow> string"
  fromBase64 :: "string \<Rightarrow> bytes"
  toHex :: "bytes \<Rightarrow> string"
  fromHex :: "string \<Rightarrow> bytes option"
  PubKey_encode :: "bytes \<Rightarrow> bytes"
  MsgSend_encode :: "MsgSend \<Rightarrow> bytes"
  TxBody_encode :: "TxBody \<Rightarrow> bytes"
  AuthInfo_encode :: "AuthInfo \<Rightarrow> bytes"
  SignDoc_encode :: "SignDoc \<Rightarrow> bytes"
  TxRaw_encode :: "TxRaw \<Rightarrow> bytes"
  utf8_reencode :: "bytes \<Rightarrow> bytes"
  toUtf8Bytes :: "string \<Rightarrow> bytes"
  hexlify :: "bytes \<Rightarrow> string"
  hashMessage :: "string \<Rightarrow> string"
  recoverPublicKey :: "string \<Rightarrow> string \<Rightarrow> string option"
  getBytes :: "string \<Rightarrow> bytes"

section \<open>Effects: errors, the trace of external calls, the outside world\<close>

text \<open>
  A thrown value.  \<open>Rejected\<close> is whatever an external party (wallet, network, library)
  throws or rejects with, by its text; the other constructors are the errors the scripts
  and the language raise themselves.
\<close>

datatype error =
    WalletNotFound
  | ConnectionFailed
  | FailedToConnect error
  | BroadcastFailed string
  | NeutronRPCError string
  | TypeError
  | Rejected string

text \<open>The calls that leave the script, in the order they are made.\<close>

datatype event =
    WalletConnect
  | GetAccount string string
  | SignMessage bytes
  | EthRequest string "string option list"
  | Post string string

text \<open>
  An asynchronous computation: the value it resolves to or the error it throws, and the
  external calls it made.  \<open>io_bind\<close> is \<^verbatim>\<open>await\<close> followed by the rest of the
  function, \<open>io_catch\<close> is \<^verbatim>\<open>try { ... } catch (e) { ... }\<close>, and \<open>io_call\<close> is one
  external call with the reply of the outside world.
\<close>

type_synonym 'a io = "(error + 'a) \<times> event list"

definition io_return :: "'a \<Rightarrow> 'a io" where
  "io_return x = (Inr x, [])"

definition io_throw :: "error \<Rightarrow> 'a io" where
  "io_throw e = (Inl e, [])"

definition io_bind :: "'a io \<Rightarrow> ('a \<Rightarrow> 'b io) \<Rightarrow> 'b io" where
  "io_bind m f =
     (case m of
        (Inl e, t) \<Rightarrow> (Inl e, t)
      | (Inr x, t) \<Rightarrow> (case f x of (r, t') \<Rightarrow> (r, t @ t')))"

definition io_catch :: "'a io \<Rightarrow> (error \<Rightarrow> 'a io) \<Rightarrow> 'a io" where
  "io_catch m h =
     (case m of
        (Inl e, t) \<Rightarrow> (case h e of (r, t') \<Rightarrow> (r, t @ t'))
      | (Inr x, t) \<Rightarrow> (Inr x, t))"

definition io_call :: "event \<Rightarrow> error + 'a \<Rightarrow> 'a io" where
  "io_call ev reply = (reply, [ev])"

text \<open>The wallet's public key object, the account a node reports, and a JSON-RPC reply.\<close>

record pubkey =
  toBase58 :: string
  toBytes :: bytes

record account =
  acc_accountNumber :: nat
  acc_sequence :: nat

record broadcast_result =
  code :: int
  txhash :: "string option"
  hash :: "string option"
  log :: "string option"
  info :: "string option"

text \<open>\<open>rpc_error\<close> is the text of \<^verbatim>\<open>error.message\<close> when the reply has a truthy
  \<^verbatim>\<open>error\<close>.\<close>

record rpc_reply =
  rpc_result :: "broadcast_result option"
  rpc_error :: "string option"

record connect_reply =
  connected :: bool
  reply_publicKey :: "pubkey option"

text \<open>
  What the outside world answers during one run of a Solflare or Phantom script.
  \<open>wallet_detected\<close>: the injected provider is there (\<^verbatim>\<open>window.solflare?.isSolflare\<close>,
  \<^verbatim>\<open>window.phantom?.solana\<close>, \<^verbatim>\<open>getPhantom()?.isPhantom\<close>).  \<open>wallet_connect\<close>: the
  outcome of \<^verbatim>\<open>connect()\<close>; \<open>connected\<close> is the boolean Solflare resolves to, and
  \<open>reply_publicKey\<close> is \<^verbatim>\<open>window.solflare.publicKey\<close> afterwards, respectively the
  \<^verbatim>\<open>publicKey\<close> of Phantom's reply.  \<open>now\<close> is \<^verbatim>\<open>Date.now()\<close>.
\<close>

record world =
  wallet_detected :: bool
  wallet_connect :: "error + connect_reply"
  wallet_signMessage :: "bytes \<Rightarrow> error + bytes"
  node_getAccount :: "string \<Rightarrow> string \<Rightarrow> error + account option"
  now :: int
  fetch_post :: "string \<Rightarrow> string \<Rightarrow> error + rpc_reply"

record config =
  rpc :: string
  chainId :: string
  addressPrefix :: string
  cfg_denom :: string

section \<open>The Solflare and Phantom scripts\<close>

text \<open>
  \<open>Solflare\<close> is \<^verbatim>\<open>src/solfare.ts\<close>; \<open>Phantom1\<close> and \<open>Phantom2\<close> are the first and the
  second script of \<^verbatim>\<open>src/phantom_not_working.ts\<close>.  The three share their configuration
  and, line by line, everything but the wallet calls and the default memo.
\<close>

datatype script = Solflare | Phantom1 | Phantom2

definition CONFIG :: config where
  "CONFIG = \<lparr>rpc = ''https://rpc.nolus.network'', chainId = ''pirin-1'',
     addressPrefix = ''nolus'', cfg_denom = ''unls''\<rparr>"

text \<open>The object \<^verbatim>\<open>getAddress\<close> returns; \<open>pubkeyAny_value\<close> is base64 text.\<close>

record address_info =
  solanaAddress :: string
  pubkeyAny_typeUrl :: string
  pubkeyAny_value :: string
  bech32Addr :: string
  ed25519PublicKey :: bytes

text \<open>\<^verbatim>\<open>getAddress\<close> from the connected public key on: the proto \<^verbatim>\<open>Any\<close> of the key
  and the address \<^verbatim>\<open>SHA256(pubkey)[:20]\<close> in bech32.\<close>

definition address_of_publicKey :: "libs \<Rightarrow> pubkey \<Rightarrow> address_info" where
  "address_of_publicKey L pk =
     (let ed25519 = toBytes pk;
          ed25519PubkeyProtoBytes = PubKey_encode L ed25519;
          hashBytes = sha256 L ed25519;
          addressBytes = js_slice hashBytes 0 20
      in \<lparr>solanaAddress = toBase58 pk,
          pubkeyAny_typeUrl = ''/cosmos.crypto.ed25519.PubKey'',
          pubkeyAny_value = toBase64 L ed25519PubkeyProtoBytes,
          bech32Addr = bech32_encode L (addressPrefix CONFIG) (bech32_toWords L addressBytes),
          ed25519PublicKey = ed25519\<rparr>)"

text \<open>
  \<^verbatim>\<open>getAddress\<close>.  Solflare and the second Phantom script test for the provider before the
  \<^verbatim>\<open>try\<close>; the first Phantom script calls \<^verbatim>\<open>window.phantom?.solana!.connect()\<close> inside
  it, which is a \<^verbatim>\<open>TypeError\<close> without a provider.  Every error inside the \<^verbatim>\<open>try\<close> is
  thrown again wrapped in \<^verbatim>\<open>Failed to connect\<close>.
\<close>

fun getAddress :: "script \<Rightarrow> libs \<Rightarrow> world \<Rightarrow> address_info io" where
  "getAddress Solflare L w =
     (if \<not> wallet_detected w then io_throw WalletNotFound
      else io_catch
        (io_bind (io_call WalletConnect (wallet_connect w)) (\<lambda>r.
           if \<not> connected r then io_throw ConnectionFailed
           else (case reply_publicKey r of
                   None \<Rightarrow> io_throw ConnectionFailed
                 | Some pk \<Rightarrow> io_return (address_of_publicKey L pk))))
        (\<lambda>e. io_throw (FailedToConnect e)))"
| "getAddress Phantom1 L w =
     io_catch
       (if \<not> wallet_detected w then io_throw TypeError
        else io_bind (io_call WalletConnect (wallet_connect w)) (\<lambda>r.
           case reply_publicKey r of
             None \<Rightarrow> io_throw ConnectionFailed
           | Some pk \<Rightarrow> io_return (address_of_publicKey L pk)))
       (\<lambda>e. io_throw (FailedToConnect e))"
| "getAddress Phantom2 L w =
     (if \<not> wallet_detected w then io_throw WalletNotFound
      else io_catch
        (io_bind (io_call WalletConnect (wallet_connect w)) (\<lambda>r.
           case reply_publicKey r of
             None \<Rightarrow> io_throw ConnectionFailed
           | Some pk \<Rightarrow> io_return (address_of_publicKey L pk)))
        (\<lambda>e. io_throw (FailedToConnect e)))"

text \<open>\<^verbatim>\<open>n || 0\<close> on a number.\<close>

definition num_or_zero :: "nat \<Rightarrow> nat" where
  "num_or_zero n = (if n = 0 then 0 else n)"

text \<open>\<^verbatim>\<open>fetchAccountInfo\<close>: \<^verbatim>\<open>StargateClient.connect\<close> and \<^verbatim>\<open>getAccount\<close> are one call to
  the node; an account the node does not know gives zeros.\<close>

definition fetchAccountInfo :: "world \<Rightarrow> string \<Rightarrow> account io" where
  "fetchAccountInfo w address =
     io_bind (io_call (GetAccount (rpc CONFIG) address) (node_getAccount w (rpc CONFIG) address))
       (\<lambda>account.
          case account of
            None \<Rightarrow> io_return \<lparr>acc_accountNumber = 0, acc_sequence = 0\<rparr>
          | Some a \<Rightarrow> io_return \<lparr>acc_accountNumber = num_or_zero (acc_accountNumber a),
                                  acc_sequence = num_or_zero (acc_sequence a)\<rparr>)"

text \<open>The JSON-RPC request of \<^verbatim>\<open>broadcastTransaction\<close>.\<close>

definition broadcast_request :: "libs \<Rightarrow> int \<Rightarrow> bytes \<Rightarrow> json" where
  "broadcast_request L t txBytes =
     JObj [(''jsonrpc'', JStr ''2.0''), (''id'', JNum t), (''method'', JStr ''broadcast_tx_sync''),
           (''params'', JObj [(''tx'', JStr (toBase64 L txBytes))])]"

text \<open>\<^verbatim>\<open>broadcastTransaction\<close>: \<^verbatim>\<open>fetch\<close> and \<^verbatim>\<open>response.json()\<close> are one call; the value
  returned is the reply's \<^verbatim>\<open>result\<close>, which may be missing.\<close>

definition broadcastTransaction :: "libs \<Rightarrow> world \<Rightarrow> bytes \<Rightarrow> broadcast_result option io" where
  "broadcastTransaction L w txBytes =
     (let body = JSON_stringify (broadcast_request L (now w) txBytes) 0 in
      io_bind (io_call (Post (rpc CONFIG) body) (fetch_post w (rpc CONFIG) body))
        (\<lambda>reply.
           case rpc_error reply of
             Some m \<Rightarrow> io_throw (BroadcastFailed m)
           | None \<Rightarrow> io_return (rpc_result reply)))"

text \<open>The values \<^verbatim>\<open>sendTransaction\<close> builds between fetching the account and signing.\<close>

definition default_memo :: "script \<Rightarrow> string" where
  "default_memo s =
     (case s of Solflare \<Rightarrow> ''solflare-ed25519-test'' | Phantom1 \<Rightarrow> ''phantom-ed25519-test''
      | Phantom2 \<Rightarrow> ''phantom-ed25519-test'')"

definition msgSend_of :: "address_info \<Rightarrow> string option \<Rightarrow> string option \<Rightarrow> MsgSend" where
  "msgSend_of a toAddr amountStr =
     \<lparr>fromAddress = bech32Addr a,
      toAddress = js_or toAddr (bech32Addr a),
      send_amount = [\<lparr>denom = cfg_denom CONFIG, amount = js_or amountStr ''1000000''\<rparr>]\<rparr>"

definition txBody_of ::
  "script \<Rightarrow> libs \<Rightarrow> address_info \<Rightarrow> string option \<Rightarrow> string option \<Rightarrow> string option \<Rightarrow> TxBody" where
  "txBody_of s L a toAddr amountStr mem =
     \<lparr>messages = [\<lparr>typeUrl = ''/cosmos.bank.v1beta1.MsgSend'',
                    any_value = MsgSend_encode L (msgSend_of a toAddr amountStr)\<rparr>],
      memo = js_or mem (default_memo s)\<rparr>"

definition authInfo_of :: "libs \<Rightarrow> address_info \<Rightarrow> nat \<Rightarrow> AuthInfo" where
  "authInfo_of L a sq =
     \<lparr>signerInfos = [\<lparr>publicKey = \<lparr>typeUrl = pubkeyAny_typeUrl a,
                                      any_value = fromBase64 L (pubkeyAny_value a)\<rparr>,
                       modeInfo = SIGN_MODE_DIRECT,
                       sequence = sq\<rparr>],
      fee = \<lparr>fee_amount = [\<lparr>denom = cfg_denom CONFIG, amount = ''500''\<rparr>], gasLimit = 200000\<rparr>\<rparr>"

definition signDoc_of ::
  "script \<Rightarrow> libs \<Rightarrow> address_info \<Rightarrow> account \<Rightarrow> string option \<Rightarrow> string option \<Rightarrow> string option
     \<Rightarrow> SignDoc" where
  "signDoc_of s L a acct toAddr amountStr mem =
     \<lparr>sd_bodyBytes = TxBody_encode L (txBody_of s L a toAddr amountStr mem),
      sd_authInfoBytes = AuthInfo_encode L (authInfo_of L a (acc_sequence acct)),
      sd_chainId = chainId CONFIG,
      sd_accountNumber = acc_accountNumber acct\<rparr>"

text \<open>
  The argument of \<^verbatim>\<open>signMessage\<close>.  Solflare is handed \<^verbatim>\<open>signBytes\<close>, the first Phantom
  script \<^verbatim>\<open>signBytes\<close> with the display hint \<^verbatim>\<open>"utf8"\<close>, and the second Phantom script
  \<^verbatim>\<open>new TextEncoder().encode(Buffer.from(signBytes).toString())\<close>.
\<close>

definition message_to_sign :: "script \<Rightarrow> libs \<Rightarrow> bytes \<Rightarrow> bytes" where
  "message_to_sign s L signBytes =
     (case s of Solflare \<Rightarrow> signBytes | Phantom1 \<Rightarrow> signBytes
      | Phantom2 \<Rightarrow> utf8_reencode L signBytes)"

definition txRaw_of :: "SignDoc \<Rightarrow> bytes \<Rightarrow> TxRaw" where
  "txRaw_of d signature =
     \<lparr>bodyBytes = sd_bodyBytes d, authInfoBytes = sd_authInfoBytes d, signatures = [signature]\<rparr>"

text \<open>The three objects \<^verbatim>\<open>sendTransaction\<close> returns: \<^verbatim>\<open>{ success: true, hash, result }\<close>,
  \<^verbatim>\<open>{ success: false, error, code, result }\<close> and \<^verbatim>\<open>{ success: false, error: String(error) }\<close>.\<close>

datatype send_result =
    Sent "string option" broadcast_result
  | NotSent string int broadcast_result
  | Caught error


text \<open>\<^verbatim>\<open>sendTransaction(toAddress?, amountStr?, memo?)\<close>: the whole body is one \<^verbatim>\<open>try\<close>
  whose \<^verbatim>\<open>catch\<close> returns the error in a result object.\<close>

definition sendTransaction ::
  "script \<Rightarrow> libs \<Rightarrow> world \<Rightarrow> string option \<Rightarrow> string option \<Rightarrow> string option \<Rightarrow> send_result io" where
  "sendTransaction s L w toAddr amountStr mem =
     io_catch
       (io_bind (getAddress s L w) (\<lambda>a.
        io_bind (fetchAccountInfo w (bech32Addr a)) (\<lambda>acct.
        let signDoc = signDoc_of s L a acct toAddr amountStr mem;
            signBytes = SignDoc_encode L signDoc;
            message = message_to_sign s L signBytes
        in
        io_bind (io_call (SignMessage message) (wallet_signMessage w message)) (\<lambda>signature.
        let txBytes = TxRaw_encode L (txRaw_of signDoc signature) in
        io_bind (broadcastTransaction L w txBytes) (\<lambda>result.
          case result of
            None \<Rightarrow> io_throw TypeError
          | Some r \<Rightarrow>
              if code r = 0 then io_return (Sent (js_or_opt (txhash r) (hash r)) r)
              else io_return (NotSent (js_or (log r) ''Unknown error'') (code r) r))))))
       (\<lambda>e. io_return (Caught e))"

section \<open>The MetaMask script\<close>

text \<open>
  The module behind \<^verbatim>\<open>./metamask/nolus\<close> and its console front end.  Its configuration
  also names a faucet URL, which no modelled function reads.
\<close>

definition CONFIG_mm :: config where
  "CONFIG_mm = \<lparr>rpc = ''https://pion-rpc.nolus.network'', chainId = ''pion-1'',
     addressPrefix = ''neutron'', cfg_denom = ''untrn''\<rparr>"

text \<open>
  What the outside world answers during one run of the MetaMask script: the three
  \<^verbatim>\<open>window.ethereum.request\<close> methods (\<open>personal_sign\<close> by its two parameters, the
  second of which is \<^verbatim>\<open>undefined\<close> when the wallet lists no account), the node, the clock,
  and the two JSON-RPC replies.
\<close>

record mm_world =
  eth_requestAccounts :: "error + unit"
  eth_accounts :: "error + string list"
  personal_sign :: "string \<Rightarrow> string option \<Rightarrow> error + string"
  mm_getAccount :: "string \<Rightarrow> string \<Rightarrow> error + account option"
  mm_now :: int
  mm_fetch_post :: "string \<Rightarrow> string \<Rightarrow> error + rpc_reply"
  mm_fetch_status :: "string \<Rightarrow> string \<Rightarrow> error + json"

record mm_address_info =
  ethAddress :: "string option"
  pubkeyAny :: Any
  mm_bech32Addr :: string

text \<open>
  The compressed secp256k1 key: a fresh \<^verbatim>\<open>Uint8Array(33)\<close> whose first byte is
  \<^verbatim>\<open>0x03\<close> when the last byte of \<^verbatim>\<open>y\<close> is odd and \<^verbatim>\<open>0x02\<close> otherwise (also when
  \<^verbatim>\<open>y\<close> is empty), followed by \<^verbatim>\<open>x\<close>; what \<^verbatim>\<open>x\<close> does not fill stays zero.
\<close>

definition compress_key :: "bytes \<Rightarrow> bytes" where
  "compress_key uncompressed =
     (let x = js_slice uncompressed 1 33;
          y = js_slice_from uncompressed 33;
          first = (if y \<noteq> [] \<and> odd (unat (last y)) then 0x03 else 0x02)
      in first # x @ replicate (32 - length x) 0)"

text \<open>The address of a compressed key: RIPEMD-160 of SHA-256, in bech32.\<close>

definition mm_address_of_key :: "libs \<Rightarrow> bytes \<Rightarrow> string" where
  "mm_address_of_key L compressed =
     (let sha = sha256 L compressed;
          rip = ripemd160 L sha
      in bech32_encode L (addressPrefix CONFIG_mm) (bech32_toWords L rip))"

text \<open>The first half of \<^verbatim>\<open>getAddress\<close>: the account, a signature over a fixed message, and
  the public key recovered from it, compressed.\<close>

definition mm_recover_key :: "libs \<Rightarrow> mm_world \<Rightarrow> (string option \<times> bytes) io" where
  "mm_recover_key L w =
     io_bind (io_call (EthRequest ''eth_requestAccounts'' []) (eth_requestAccounts w)) (\<lambda>_.
     io_bind (io_call (EthRequest ''eth_accounts'' []) (eth_accounts w)) (\<lambda>accounts.
     let ethAddr = (case accounts of [] \<Rightarrow> None | a # _ \<Rightarrow> Some a);
         message = ''Generate Cosmos pubkey'';
         hexMessage = hexlify L (toUtf8Bytes L message)
     in
     io_bind (io_call (EthRequest ''personal_sign'' [Some hexMessage, ethAddr])
                (personal_sign w hexMessage ethAddr)) (\<lambda>sig.
     let digest = hashMessage L message in
     case recoverPublicKey L digest sig of
       None \<Rightarrow> io_throw (Rejected ''recoverPublicKey'')
     | Some fullPubkey \<Rightarrow> io_return (ethAddr, compress_key (getBytes L fullPubkey)))))"

definition mm_getAddress :: "libs \<Rightarrow> mm_world \<Rightarrow> mm_address_info io" where
  "mm_getAddress L w =
     io_bind (mm_recover_key L w) (\<lambda>(ethAddr, compressed).
       io_return
         \<lparr>ethAddress = ethAddr,
          pubkeyAny = \<lparr>typeUrl = ''/cosmos.crypto.secp256k1.PubKey'',
                       any_value = PubKey_encode L compressed\<rparr>,
          mm_bech32Addr = mm_address_of_key L compressed\<rparr>)"

text \<open>\<^verbatim>\<open>fetchAccountInfo\<close> and \<^verbatim>\<open>broadcastTransaction\<close> of this script catch every error
  and throw it again.\<close>

definition mm_fetchAccountInfo :: "mm_world \<Rightarrow> string \<Rightarrow> account io" where
  "mm_fetchAccountInfo w address =
     io_catch
       (io_bind (io_call (GetAccount (rpc CONFIG_mm) address) (mm_getAccount w (rpc CONFIG_mm) address))
          (\<lambda>account.
             case account of
               None \<Rightarrow> io_return \<lparr>acc_accountNumber = 0, acc_sequence = 0\<rparr>
             | Some a \<Rightarrow> io_return \<lparr>acc_accountNumber = acc_accountNumber a,
                                     acc_sequence = acc_sequence a\<rparr>))
       (\<lambda>e. io_throw e)"

definition mm_broadcastTransaction :: "libs \<Rightarrow> mm_world \<Rightarrow> bytes \<Rightarrow> broadcast_result option io" where
  "mm_broadcastTransaction L w txBytes =
     io_catch
       (let body = JSON_stringify (broadcast_request L (mm_now w) txBytes) 0 in
        io_bind (io_call (Post (rpc CONFIG_mm) body) (mm_fetch_post w (rpc CONFIG_mm) body))
          (\<lambda>reply.
             case rpc_error reply of
               Some m \<Rightarrow> io_throw (NeutronRPCError m)
             | None \<Rightarrow> io_return (rpc_result reply)))
       (\<lambda>e. io_throw e)"

text \<open>The document \<^verbatim>\<open>exactSignDoc\<close>, key by key in the order the object literal lists them.\<close>

definition exactSignDoc ::
  "mm_address_info \<Rightarrow> account \<Rightarrow> string option \<Rightarrow> string option \<Rightarrow> string option \<Rightarrow> json" where
  "exactSignDoc a acct toAddr amt mem =
     JObj [
       (''account_number'', JStr (decimal (acc_accountNumber acct))),
       (''chain_id'', JStr (chainId CONFIG_mm)),
       (''fee'', JObj [
          (''amount'', JArr [JObj [(''amount'', JStr ''5000''), (''denom'', JStr (cfg_denom CONFIG_mm))]]),
          (''gas'', JStr ''200000'')]),
       (''memo'', JStr (js_or mem ''Neutron Network transaction'')),
       (''msgs'', JArr [JObj [
          (''type'', JStr ''cosmos-sdk/MsgSend''),
          (''value'', JObj [
             (''amount'', JArr [JObj [(''amount'', JStr (js_or amt ''1000000'')),
                                      (''denom'', JStr (cfg_denom CONFIG_mm))]]),
             (''from_address'', JStr (mm_bech32Addr a)),
             (''to_address'', JStr (js_or toAddr (mm_bech32Addr a)))])]]),
       (''sequence'', JStr (decimal (acc_sequence acct)))]"

definition mm_messageBytes ::
  "libs \<Rightarrow> mm_address_info \<Rightarrow> account \<Rightarrow> string option \<Rightarrow> string option \<Rightarrow> string option \<Rightarrow> bytes" where
  "mm_messageBytes L a acct toAddr amt mem =
     toUtf8Bytes L (JSON_stringify (exactSignDoc a acct toAddr amt mem) 4)"

definition mm_msgSend_of :: "mm_address_info \<Rightarrow> string option \<Rightarrow> string option \<Rightarrow> MsgSend" where
  "mm_msgSend_of a toAddr amt =
     \<lparr>fromAddress = mm_bech32Addr a,
      toAddress = js_or toAddr (mm_bech32Addr a),
      send_amount = [\<lparr>denom = cfg_denom CONFIG_mm, amount = js_or amt ''1000000''\<rparr>]\<rparr>"

definition mm_txBody_of ::
  "libs \<Rightarrow> mm_address_info \<Rightarrow> string option \<Rightarrow> string option \<Rightarrow> string option \<Rightarrow> TxBody" where
  "mm_txBody_of L a toAddr amt mem =
     \<lparr>messages = [\<lparr>typeUrl = ''/cosmos.bank.v1beta1.MsgSend'',
                    any_value = MsgSend_encode L (mm_msgSend_of a toAddr amt)\<rparr>],
      memo = js_or mem ''Neutron Network transaction''\<rparr>"

definition mm_authInfo_of :: "mm_address_info \<Rightarrow> nat \<Rightarrow> AuthInfo" where
  "mm_authInfo_of a sq =
     \<lparr>signerInfos = [\<lparr>publicKey = pubkeyAny a, modeInfo = SIGN_MODE_EIP_191, sequence = sq\<rparr>],
      fee = \<lparr>fee_amount = [\<lparr>denom = cfg_denom CONFIG_mm, amount = ''5000''\<rparr>], gasLimit = 200000\<rparr>\<rparr>"

definition mm_txRaw_of ::
  "libs \<Rightarrow> mm_address_info \<Rightarrow> account \<Rightarrow> string option \<Rightarrow> string option \<Rightarrow> string option \<Rightarrow> bytes
     \<Rightarrow> TxRaw" where
  "mm_txRaw_of L a acct toAddr amt mem sig =
     \<lparr>bodyBytes = TxBody_encode L (mm_txBody_of L a toAddr amt mem),
      authInfoBytes = AuthInfo_encode L (mm_authInfo_of a (acc_sequence acct)),
      signatures = [sig]\<rparr>"

text \<open>The two objects this \<^verbatim>\<open>sendTransaction\<close> returns: \<^verbatim>\<open>{ success: true, hash, result }\<close>
  and \<^verbatim>\<open>{ success: false, error: result.log, result }\<close>.\<close>

datatype mm_send_result =
    MM_Sent "string option" broadcast_result
  | MM_NotSent "string option" broadcast_result


text \<open>\<^verbatim>\<open>sendTransaction(toAddress?, amount?, memo?)\<close>: the \<^verbatim>\<open>catch\<close> of its \<^verbatim>\<open>try\<close> throws
  the error again.\<close>

definition mm_sendTransaction ::
  "libs \<Rightarrow> mm_world \<Rightarrow> string option \<Rightarrow> string option \<Rightarrow> string option \<Rightarrow> mm_send_result io" where
  "mm_sendTransaction L w toAddr amt mem =
     io_catch
       (io_bind (mm_getAddress L w) (\<lambda>a.
        io_bind (mm_fetchAccountInfo w (mm_bech32Addr a)) (\<lambda>acct.
        let messageBytes = mm_messageBytes L a acct toAddr amt mem;
            msgToSign = ''0x'' @ toHex L messageBytes
        in
        io_bind (io_call (EthRequest ''personal_sign'' [Some msgToSign, ethAddress a])
                   (personal_sign w msgToSign (ethAddress a))) (\<lambda>sigResult.
        case fromHex L (js_slice sigResult 2 (- 2)) of
          None \<Rightarrow> io_throw (Rejected ''fromHex'')
        | Some sig \<Rightarrow>
            let txBytes = TxRaw_encode L (mm_txRaw_of L a acct toAddr amt mem sig) in
            io_bind (mm_broadcastTransaction L w txBytes) (\<lambda>result.
              case result of
                None \<Rightarrow> io_throw TypeError
              | Some r \<Rightarrow>
                  if code r = 0 then io_return (MM_Sent (hash r) r)
                  else io_return (MM_NotSent (log r) r))))))
       (\<lambda>e. io_throw e)"



text \<open>The console's \<^verbatim>\<open>window.sendTransaction\<close> is \<^verbatim>\<open>sendTransactionFn\<close>, which passes its
  arguments on and returns \<^verbatim>\<open>{ success: true, hash, explorerUrl }\<close> or
  \<^verbatim>\<open>{ success: false, error }\<close>.\<close>

datatype fn_result =
    Fn_Sent "string option" "string option"
  | Fn_NotSent "string option"

fun fn_success :: "fn_result \<Rightarrow> bool" where
  "fn_success (Fn_Sent h u) = True"
| "fn_success (Fn_NotSent e) = False"

definition sendTransactionFn ::
  "libs \<Rightarrow> mm_world \<Rightarrow> string option \<Rightarrow> string option \<Rightarrow> string option \<Rightarrow> fn_result io" where
  "sendTransactionFn L w toAddr amt mem =
     io_catch
       (io_bind (mm_sendTransaction L w toAddr amt mem) (\<lambda>result.
          case result of
            MM_Sent h r \<Rightarrow> io_return (Fn_Sent h h)
          | MM_NotSent e r \<Rightarrow> io_return (Fn_NotSent e)))
       (\<lambda>e. io_throw e)"

section \<open>A reference instance of the libraries and two sample runs\<close>

text \<open>
  To run the scripts on concrete inputs the library functions need values.  The protobuf
  encoders below write the wire format as the generated encoders of \<^verbatim>\<open>cosmjs-types\<close> do
  (a field at its default value is left out); hex, base64 and UTF-8 are the usual codecs.
  The hash functions, bech32 and the signature recovery are not computed: the instance
  puts fixed-length placeholders in their place, which is all the sample runs need.
\<close>

fun varint :: "nat \<Rightarrow> bytes" where
  "varint n = (if n < 128 then [of_nat n] else of_nat (128 + n mod 128) # varint (n div 128))"

declare varint.simps [simp del]

definition pb_bytes :: "nat \<Rightarrow> bytes \<Rightarrow> bytes" where
  "pb_bytes field bs = varint (field * 8 + 2) @ varint (length bs) @ bs"

definition pb_uint :: "nat \<Rightarrow> nat \<Rightarrow> bytes" where
  "pb_uint field n = varint (field * 8) @ varint n"

definition utf8_char :: "char \<Rightarrow> bytes" where
  "utf8_char c =
     (let n = (of_char c :: nat) in
      if n < 128 then [of_nat n] else [of_nat (192 + n div 64), of_nat (128 + n mod 64)])"

definition ref_toUtf8Bytes :: "string \<Rightarrow> bytes" where
  "ref_toUtf8Bytes s = concat (map utf8_char s)"

definition pb_string :: "nat \<Rightarrow> string \<Rightarrow> bytes" where
  "pb_string field s = pb_bytes field (ref_toUtf8Bytes s)"

definition ref_Coin_encode :: "Coin \<Rightarrow> bytes" where
  "ref_Coin_encode c =
     (if denom c = [] then [] else pb_string 1 (denom c))
     @ (if amount c = [] then [] else pb_string 2 (amount c))"

definition ref_MsgSend_encode :: "MsgSend \<Rightarrow> bytes" where
  "ref_MsgSend_encode m =
     (if fromAddress m = [] then [] else pb_string 1 (fromAddress m))
     @ (if toAddress m = [] then [] else pb_string 2 (toAddress m))
     @ concat (map (\<lambda>c. pb_bytes 3 (ref_Coin_encode c)) (send_amount m))"

definition ref_Any_encode :: "Any \<Rightarrow> bytes" where
  "ref_Any_encode a =
     (if typeUrl a = [] then [] else pb_string 1 (typeUrl a))
     @ (if any_value a = [] then [] else pb_bytes 2 (any_value a))"

definition ref_TxBody_encode :: "TxBody \<Rightarrow> bytes" where
  "ref_TxBody_encode b =
     concat (map (\<lambda>a. pb_bytes 1 (ref_Any_encode a)) (messages b))
     @ (if memo b = [] then [] else pb_string 2 (memo b))"

definition ref_PubKey_encode :: "bytes \<Rightarrow> bytes" where
  "ref_PubKey_encode k = (if k = [] then [] else pb_bytes 1 k)"

definition SignMode_number :: "SignMode \<Rightarrow> nat" where
  "SignMode_number m = (case m of SIGN_MODE_DIRECT \<Rightarrow> 1 | SIGN_MODE_EIP_191 \<Rightarrow> 191)"

definition ref_SignerInfo_encode :: "SignerInfo \<Rightarrow> bytes" where
  "ref_SignerInfo_encode i =
     pb_bytes 1 (ref_Any_encode (publicKey i))
     @ pb_bytes 2 (pb_bytes 1 (pb_uint 1 (SignMode_number (modeInfo i))))
     @ (if sequence i = 0 then [] else pb_uint 3 (sequence i))"

definition ref_Fee_encode :: "Fee \<Rightarrow> bytes" where
  "ref_Fee_encode f =
     concat (map (\<lambda>c. pb_bytes 1 (ref_Coin_encode c)) (fee_amount f))
     @ (if gasLimit f = 0 then [] else pb_uint 2 (gasLimit f))"

definition ref_AuthInfo_encode :: "AuthInfo \<Rightarrow> bytes" where
  "ref_AuthInfo_encode a =
     concat (map (\<lambda>i. pb_bytes 1 (ref_SignerInfo_encode i)) (signerInfos a))
     @ pb_bytes 2 (ref_Fee_encode (fee a))"

definition ref_SignDoc_encode :: "SignDoc \<Rightarrow> bytes" where
  "ref_SignDoc_encode d =
     (if sd_bodyBytes d = [] then [] else pb_bytes 1 (sd_bodyBytes d))
     @ (if sd_authInfoBytes d = [] then [] else pb_bytes 2 (sd_authInfoBytes d))
     @ (if sd_chainId d = [] then [] else pb_string 3 (sd_chainId d))
     @ (if sd_accountNumber d = 0 then [] else pb_uint 4 (sd_accountNumber d))"

definition ref_TxRaw_encode :: "TxRaw \<Rightarrow> bytes" where
  "ref_TxRaw_encode t =
     (if bodyBytes t = [] then [] else pb_bytes 1 (bodyBytes t))
     @ (if authInfoBytes t = [] then [] else pb_bytes 2 (authInfoBytes t))
     @ concat (map (pb_bytes 3) (signatures t))"

text \<open>Hexadecimal text, lower case when written, either case when read.\<close>

definition ref_toHex :: "bytes \<Rightarrow> string" where
  "ref_toHex bs = concat (map (\<lambda>b. [hex_digit (unat b div 16), hex_digit (unat b mod 16)]) bs)"

definition hex_value :: "char \<Rightarrow> nat option" where
  "hex_value c =
     (let n = (of_char c :: nat) in
      if 48 \<le> n \<and> n \<le> 57 then Some (n - 48)
      else if 97 \<le> n \<and> n \<le> 102 then Some (n - 87)
      else if 65 \<le> n \<and> n \<le> 70 then Some (n - 55)
      else None)"

fun ref_fromHex :: "string \<Rightarrow> bytes option" where
  "ref_fromHex [] = Some []"
| "ref_fromHex [c] = None"
| "ref_fromHex (c # d # rest) =
     (case (hex_value c, hex_value d, ref_fromHex rest) of
        (Some h, Some l, Some bs) \<Rightarrow> Some (of_nat (16 * h + l) # bs)
      | _ \<Rightarrow> None)"

definition ref_hexlify :: "bytes \<Rightarrow> string" where
  "ref_hexlify bs = ''0x'' @ ref_toHex bs"

definition ref_getBytes :: "string \<Rightarrow> bytes" where
  "ref_getBytes s = (case ref_fromHex (drop 2 s) of Some bs \<Rightarrow> bs | None \<Rightarrow> [])"

text \<open>Base64 with padding.\<close>

definition b64_char :: "nat \<Rightarrow> char" where
  "b64_char n =
     (''ABCDEFGHIJKLMNOPQRSTUVWXYZabcdefghijklmnopqrstuvwxyz0123456789+/'' @ ''='') ! min n 64"

fun ref_toBase64 :: "bytes \<Rightarrow> string" where
  "ref_toBase64 [] = []"
| "ref_toBase64 [a] =
     (let n = unat a * 65536 in
      [b64_char (n div 262144), b64_char (n div 4096 mod 64), CHR ''='', CHR ''=''])"
| "ref_toBase64 [a, b] =
     (let n = unat a * 65536 + unat b * 256 in
      [b64_char (n div 262144), b64_char (n div 4096 mod 64), b64_char (n div 64 mod 64), CHR ''=''])"
| "ref_toBase64 (a # b # c # rest) =
     (let n = unat a * 65536 + unat b * 256 + unat c in
      [b64_char (n div 262144), b64_char (n div 4096 mod 64), b64_char (n div 64 mod 64),
       b64_char (n mod 64)] @ ref_toBase64 rest)"

definition b64_value :: "char \<Rightarrow> nat" where
  "b64_value c =
     (let n = (of_char c :: nat) in
      if 65 \<le> n \<and> n \<le> 90 then n - 65
      else if 97 \<le> n \<and> n \<le> 122 then n - 71
      else if 48 \<le> n \<and> n \<le> 57 then n + 4
      else if n = 43 then 62
      else if n = 47 then 63
      else 0)"

fun ref_fromBase64 :: "string \<Rightarrow> bytes" where
  "ref_fromBase64 (a # b # c # d # rest) =
     (let n = b64_value a * 262144 + b64_value b * 4096 + b64_value c * 64 + b64_value d;
          three = [of_nat (n div 65536), of_nat (n div 256 mod 256), of_nat (n mod 256)]
      in (if c = CHR ''='' then take 1 three else if d = CHR ''='' then take 2 three else three)
         @ ref_fromBase64 rest)"
| "ref_fromBase64 _ = []"

text \<open>
  Decoding bytes as UTF-8 and encoding the string again, as the \<^verbatim>\<open>buffer\<close> package
  decodes: a well-formed sequence of one to four bytes comes back as it is, and every
  byte that starts none becomes U+FFFD, which is \<^verbatim>\<open>EF BF BD\<close> in UTF-8.
\<close>

definition is_continuation :: "8 word \<Rightarrow> bool" where
  "is_continuation b = (128 \<le> unat b \<and> unat b < 192)"

definition utf8_sequence_length :: "bytes \<Rightarrow> nat" where
  "utf8_sequence_length bs =
     (case bs of
        [] \<Rightarrow> 0
      | b # rest \<Rightarrow>
          (let n = unat b in
           if n < 128 then 1
           else if 192 \<le> n \<and> n < 224 then
             (case rest of
                c # _ \<Rightarrow> if is_continuation c \<and> 127 < (n mod 32) * 64 + unat c mod 64 then 2 else 0
              | _ \<Rightarrow> 0)
           else if 224 \<le> n \<and> n < 240 then
             (case rest of
                c # d # _ \<Rightarrow>
                  (let cp = (n mod 16) * 4096 + (unat c mod 64) * 64 + unat d mod 64 in
                   if is_continuation c \<and> is_continuation d \<and> 2047 < cp \<and> (cp < 55296 \<or> 57343 < cp)
                   then 3 else 0)
              | _ \<Rightarrow> 0)
           else if 240 \<le> n then
             (case rest of
                c # d # e # _ \<Rightarrow>
                  (let cp = (n mod 16) * 262144 + (unat c mod 64) * 4096 + (unat d mod 64) * 64
                            + unat e mod 64 in
                   if is_continuation c \<and> is_continuation d \<and> is_continuation e \<and> 65535 < cp
                      \<and> cp < 1114112
                   then 4 else 0)
              | _ \<Rightarrow> 0)
           else 0))"

function ref_utf8_reencode :: "bytes \<Rightarrow> bytes" where
  "ref_utf8_reencode bs =
     (if bs = [] then []
      else if utf8_sequence_length bs = 0 then [0xEF, 0xBF, 0xBD] @ ref_utf8_reencode (tl bs)
      else take (utf8_sequence_length bs) bs @ ref_utf8_reencode (drop (utf8_sequence_length bs) bs))"
  by pat_completeness auto
termination
  by (relation "measure length") (auto simp: neq_Nil_conv)

declare ref_utf8_reencode.simps [simp del]

text \<open>The placeholders: digests of 32 and 20 bytes, five-bit words, an address text
  without checksum, a fixed message digest, and a fixed recovered key.\<close>

definition ref_sha256 :: "bytes \<Rightarrow> bytes" where
  "ref_sha256 bs = take 32 (bs @ replicate 32 0)"

definition ref_ripemd160 :: "bytes \<Rightarrow> bytes" where
  "ref_ripemd160 bs = take 20 (bs @ replicate 20 0)"

definition ref_toWords :: "bytes \<Rightarrow> nat list" where
  "ref_toWords bs = map (\<lambda>b. unat b mod 32) bs"

definition ref_bech32_encode :: "string \<Rightarrow> nat list \<Rightarrow> string" where
  "ref_bech32_encode prefix ws =
     prefix @ ''1'' @ map (\<lambda>w. ''qpzry9x8gf2tvdw0s3jn54khce6mua7l'' ! (w mod 32)) ws"

definition ref_hashMessage :: "string \<Rightarrow> string" where
  "ref_hashMessage m = ''0x'' @ ref_toHex (ref_sha256 (ref_toUtf8Bytes m))"

definition ref_recoverPublicKey :: "string \<Rightarrow> string \<Rightarrow> string option" where
  "ref_recoverPublicKey digest sig =
     (if length sig = 132 then Some (''0x04'' @ concat (replicate 32 ''11'') @ concat (replicate 32 ''25''))
      else None)"

definition ref_libs :: libs where
  "ref_libs =
     \<lparr>sha256 = ref_sha256, ripemd160 = ref_ripemd160,
      bech32_toWords = ref_toWords, bech32_encode = ref_bech32_encode,
      toBase64 = ref_toBase64, fromBase64 = ref_fromBase64,
      toHex = ref_toHex, fromHex = ref_fromHex,
      PubKey_encode = ref_PubKey_encode, MsgSend_encode = ref_MsgSend_encode,
      TxBody_encode = ref_TxBody_encode, AuthInfo_encode = ref_AuthInfo_encode,
      SignDoc_encode = ref_SignDoc_encode, TxRaw_encode = ref_TxRaw_encode,
      utf8_reencode = ref_utf8_reencode, toUtf8Bytes = ref_toUtf8Bytes,
      hexlify = ref_hexlify, hashMessage = ref_hashMessage,
      recoverPublicKey = ref_recoverPublicKey, getBytes = ref_getBytes\<rparr>"

text \<open>
  A sample run of a Solflare or Phantom script: a wallet whose key is thirty-two bytes
  \<^verbatim>\<open>0xFF\<close>, a node that knows the account, a signature, and a broadcast the node accepts.
\<close>

definition sample_key :: pubkey where
  "sample_key = \<lparr>toBase58 = ''JEKNVnkbo3jma5nREBBJCDoXFVeKkD56V3xKrvRmWxFG'', toBytes = replicate 32 0xFF\<rparr>"

definition sample_result :: broadcast_result where
  "sample_result = \<lparr>code = 0, txhash = None, hash = Some ''5F2A'', log = Some [], info = None\<rparr>"

definition sample_world :: world where
  "sample_world =
     \<lparr>wallet_detected = True,
      wallet_connect = Inr \<lparr>connected = True, reply_publicKey = Some sample_key\<rparr>,
      wallet_signMessage = (\<lambda>m. Inr (replicate 64 0x5A)),
      node_getAccount = (\<lambda>url address. Inr (Some \<lparr>acc_accountNumber = 7, acc_sequence = 3\<rparr>)),
      now = 1700000000000,
      fetch_post = (\<lambda>url body. Inr \<lparr>rpc_result = Some sample_result, rpc_error = None\<rparr>)\<rparr>"

text \<open>The same run against a node that does not know the account.\<close>

definition sample_world_new :: world where
  "sample_world_new = sample_world\<lparr>node_getAccount := (\<lambda>url address. Inr None)\<rparr>"

text \<open>A sample run of the MetaMask script, and the same with an unknown account.\<close>

definition sample_signature :: string where
  "sample_signature = ''0x'' @ concat (replicate 64 ''ab'') @ ''1c''"

definition sample_mm_world :: mm_world where
  "sample_mm_world =
     \<lparr>eth_requestAccounts = Inr (),
      eth_accounts = Inr [''0x52908400098527886E0F7030069857D2E4169EE7''],
      personal_sign = (\<lambda>message address. Inr sample_signature),
      mm_getAccount = (\<lambda>url address. Inr (Some \<lparr>acc_accountNumber = 7, acc_sequence = 3\<rparr>)),
      mm_now = 1700000000000,
      mm_fetch_post = (\<lambda>url body. Inr \<lparr>rpc_result = Some sample_result, rpc_error = None\<rparr>),
      mm_fetch_status = (\<lambda>url body. Inr (JObj []))\<rparr>"

definition sample_mm_world_new :: mm_world where
  "sample_mm_world_new = sample_mm_world\<lparr>mm_getAccount := (\<lambda>url address. Inr None)\<rparr>"

section \<open>Notions the properties are stated with\<close>

text \<open>Reading a JSON value along a path of keys and array indices, as
  \<^verbatim>\<open>doc.msgs[0].value\<close> does.\<close>

datatype step = Key string | Idx nat

fun json_get :: "step list \<Rightarrow> json \<Rightarrow> json option" where
  "json_get [] v = Some v"
| "json_get (Key k # path) (JObj kvs) =
     (case map_of kvs k of None \<Rightarrow> None | Some v \<Rightarrow> json_get path v)"
| "json_get (Idx i # path) (JArr xs) = (if i < length xs then json_get path (xs ! i) else None)"
| "json_get path v = None"

text \<open>The three wallet requests with which the MetaMask script obtains its public key.\<close>

definition keygen_trace :: "libs \<Rightarrow> string option \<Rightarrow> event list" where
  "keygen_trace L eth =
     [EthRequest ''eth_requestAccounts'' [], EthRequest ''eth_accounts'' [],
      EthRequest ''personal_sign'' [Some (hexlify L (toUtf8Bytes L ''Generate Cosmos pubkey'')), eth]]"

fun is_Post :: "event \<Rightarrow> bool" where
  "is_Post (Post url body) = True"
| "is_Post _ = False"

text \<open>The account \<^verbatim>\<open>fetchAccountInfo\<close> reports for a reply of the node.\<close>

definition account_of_reply :: "account option \<Rightarrow> account" where
  "account_of_reply reply =
     (case reply of None \<Rightarrow> \<lparr>acc_accountNumber = 0, acc_sequence = 0\<rparr> | Some a \<Rightarrow> a)"


text \<open>The addresses of the sample runs.\<close>

definition sample_address :: address_info where
  "sample_address = address_of_publicKey ref_libs sample_key"

definition sample_compressed :: bytes where
  "sample_compressed =
     compress_key (getBytes ref_libs
       (''0x04'' @ concat (replicate 32 ''11'') @ concat (replicate 32 ''25'')))"

definition sample_mm_address :: mm_address_info where
  "sample_mm_address =
     \<lparr>ethAddress = Some ''0x52908400098527886E0F7030069857D2E4169EE7'',
      pubkeyAny = \<lparr>typeUrl = ''/cosmos.crypto.secp256k1.PubKey'',
                   any_value = PubKey_encode ref_libs sample_compressed\<rparr>,
      mm_bech32Addr = mm_address_of_key ref_libs sample_compressed\<rparr>"

section \<open>The unit converters of the console front end\<close>




















section \<open>Runs of the scripts\<close>

lemmas io_defs = io_bind_def io_catch_def io_call_def io_throw_def io_return_def

lemma js_slice_prefix: "0 \<le> n \<Longrightarrow> js_slice xs 0 n = take (nat n) xs"
  by (auto simp: js_slice_def Let_def min_def)

lemma getAddress_Inr:
  "getAddress s L w = (Inr a, t) \<Longrightarrow>
     t = [WalletConnect] \<and>
     (\<exists>r pk. wallet_connect w = Inr r \<and> reply_publicKey r = Some pk \<and> a = address_of_publicKey L pk)"
  by (cases s) (auto simp: io_defs split: if_splits sum.splits option.splits prod.splits)

lemma getAddress_trace: "snd (getAddress s L w) = [] \<or> snd (getAddress s L w) = [WalletConnect]"
  by (cases s) (auto simp: io_defs split: if_splits sum.splits option.splits prod.splits)

lemma length_compress_key: "length (compress_key u) = 33"
  by (auto simp: compress_key_def Let_def js_slice_def js_slice_from_def)

lemma fetchAccountInfo_run:
  "fetchAccountInfo w addr =
     (case node_getAccount w (rpc CONFIG) addr of
        Inl e \<Rightarrow> (Inl e, [GetAccount (rpc CONFIG) addr])
      | Inr reply \<Rightarrow> (Inr (account_of_reply reply), [GetAccount (rpc CONFIG) addr]))"
  by (auto simp: fetchAccountInfo_def num_or_zero_def account_of_reply_def io_defs
           split: sum.splits option.splits)

lemma mm_fetchAccountInfo_run:
  "mm_fetchAccountInfo w addr =
     (case mm_getAccount w (rpc CONFIG_mm) addr of
        Inl e \<Rightarrow> (Inl e, [GetAccount (rpc CONFIG_mm) addr])
      | Inr reply \<Rightarrow> (Inr (account_of_reply reply), [GetAccount (rpc CONFIG_mm) addr]))"
  by (auto simp: mm_fetchAccountInfo_def account_of_reply_def io_defs split: sum.splits option.splits)

lemma sendTransaction_run:
  "sendTransaction s L w ta am me =
     (case getAddress s L w of
        (Inl e, t) \<Rightarrow> (Inr (Caught e), t)
      | (Inr a, t) \<Rightarrow>
          (case node_getAccount w (rpc CONFIG) (bech32Addr a) of
             Inl e \<Rightarrow> (Inr (Caught e), t @ [GetAccount (rpc CONFIG) (bech32Addr a)])
           | Inr reply \<Rightarrow>
               (let d = signDoc_of s L a (account_of_reply reply) ta am me;
                    m = message_to_sign s L (SignDoc_encode L d);
                    t2 = t @ [GetAccount (rpc CONFIG) (bech32Addr a), SignMessage m] in
                case wallet_signMessage w m of
                  Inl e \<Rightarrow> (Inr (Caught e), t2)
                | Inr sig \<Rightarrow>
                    (let body = JSON_stringify (broadcast_request L (now w) (TxRaw_encode L (txRaw_of d sig))) 0;
                         tr = t2 @ [Post (rpc CONFIG) body] in
                     case fetch_post w (rpc CONFIG) body of
                       Inl e \<Rightarrow> (Inr (Caught e), tr)
                     | Inr reply \<Rightarrow>
                         (case rpc_error reply of
                            Some msg \<Rightarrow> (Inr (Caught (BroadcastFailed msg)), tr)
                          | None \<Rightarrow>
                              (case rpc_result reply of
                                 None \<Rightarrow> (Inr (Caught TypeError), tr)
                               | Some r \<Rightarrow>
                                   if code r = 0 then (Inr (Sent (js_or_opt (txhash r) (hash r)) r), tr)
                                   else (Inr (NotSent (js_or (log r) ''Unknown error'') (code r) r), tr)))))))"
  by (auto simp: sendTransaction_def broadcastTransaction_def fetchAccountInfo_run io_defs Let_def
           split: if_splits sum.splits option.splits prod.splits)

lemma mm_recover_key_Inr:
  "mm_recover_key L w = (Inr (eth, k), t) \<Longrightarrow>
     t = keygen_trace L eth \<and>
     (\<exists>sig full.
        personal_sign w (hexlify L (toUtf8Bytes L ''Generate Cosmos pubkey'')) eth = Inr sig \<and>
        recoverPublicKey L (hashMessage L ''Generate Cosmos pubkey'') sig = Some full \<and>
        k = compress_key (getBytes L full))"
  by (auto simp: mm_recover_key_def keygen_trace_def io_defs Let_def
           split: sum.splits option.splits prod.splits if_splits)

lemma mm_getAddress_Inr:
  "mm_getAddress L w = (Inr a, t) \<Longrightarrow>
     \<exists>k. mm_recover_key L w = (Inr (ethAddress a, k), t) \<and>
         pubkeyAny a = \<lparr>typeUrl = ''/cosmos.crypto.secp256k1.PubKey'', any_value = PubKey_encode L k\<rparr> \<and>
         mm_bech32Addr a = mm_address_of_key L k"
  by (auto simp: mm_getAddress_def io_defs split: sum.splits option.splits prod.splits)

lemma mm_getAddress_trace:
  "mm_getAddress L w = (Inr a, t) \<Longrightarrow> t = keygen_trace L (ethAddress a)"
  using mm_getAddress_Inr [of L w a t] mm_recover_key_Inr [of L w "ethAddress a" _ t] by blast

lemma mm_getAddress_length: "length (snd (mm_getAddress L w)) \<le> 3"
  by (auto simp: mm_getAddress_def mm_recover_key_def io_defs Let_def
           split: sum.splits option.splits prod.splits)

lemma mm_getAddress_no_Post: "filter is_Post (snd (mm_getAddress L w)) = []"
  by (auto simp: mm_getAddress_def mm_recover_key_def io_defs Let_def
           split: sum.splits option.splits prod.splits)

lemma mm_sendTransaction_run:
  "mm_sendTransaction L w ta am me =
     (case mm_getAddress L w of
        (Inl e, t) \<Rightarrow> (Inl e, t)
      | (Inr a, t) \<Rightarrow>
          (case mm_getAccount w (rpc CONFIG_mm) (mm_bech32Addr a) of
             Inl e \<Rightarrow> (Inl e, t @ [GetAccount (rpc CONFIG_mm) (mm_bech32Addr a)])
           | Inr reply \<Rightarrow>
               (let acct = account_of_reply reply;
                    msg = ''0x'' @ toHex L (mm_messageBytes L a acct ta am me);
                    t2 = t @ [GetAccount (rpc CONFIG_mm) (mm_bech32Addr a),
                              EthRequest ''personal_sign'' [Some msg, ethAddress a]] in
                case personal_sign w msg (ethAddress a) of
                  Inl e \<Rightarrow> (Inl e, t2)
                | Inr sigResult \<Rightarrow>
                    (case fromHex L (js_slice sigResult 2 (- 2)) of
                       None \<Rightarrow> (Inl (Rejected ''fromHex''), t2)
                     | Some sig \<Rightarrow>
                        (let body = JSON_stringify (broadcast_request L (mm_now w)
                                      (TxRaw_encode L (mm_txRaw_of L a acct ta am me sig))) 0;
                             tr = t2 @ [Post (rpc CONFIG_mm) body] in
                         case mm_fetch_post w (rpc CONFIG_mm) body of
                           Inl e \<Rightarrow> (Inl e, tr)
                         | Inr reply \<Rightarrow>
                             (case rpc_error reply of
                                Some m \<Rightarrow> (Inl (NeutronRPCError m), tr)
                              | None \<Rightarrow>
                                  (case rpc_result reply of
                                     None \<Rightarrow> (Inl TypeError, tr)
                                   | Some r \<Rightarrow>
                                       if code r = 0 then (Inr (MM_Sent (hash r) r), tr)
                                       else (Inr (MM_NotSent (log r) r), tr))))))))"
  by (auto simp: mm_sendTransaction_def mm_broadcastTransaction_def mm_fetchAccountInfo_run io_defs Let_def
           split: if_splits sum.splits option.splits prod.splits)



lemma getAddress_events: "e \<in> set (snd (getAddress s L w)) \<Longrightarrow> e = WalletConnect"
  using getAddress_trace [of s L w] by auto

lemma mm_getAddress_Post: "Post u b \<notin> set (snd (mm_getAddress L w))"
  using mm_getAddress_no_Post [of L w] by (auto simp: filter_empty_conv)


text \<open>A run that asks for a signature.\<close>

lemma sendTransaction_SignMessage:
  assumes "SignMessage m \<in> set (snd (sendTransaction s L w ta am me))"
  shows "\<exists>a reply rest.
           getAddress s L w = (Inr a, [WalletConnect]) \<and>
           node_getAccount w (rpc CONFIG) (bech32Addr a) = Inr reply \<and>
           m = message_to_sign s L
                 (SignDoc_encode L (signDoc_of s L a (account_of_reply reply) ta am me)) \<and>
           snd (sendTransaction s L w ta am me) =
             WalletConnect # GetAccount (rpc CONFIG) (bech32Addr a) # SignMessage m # rest"
proof -
  obtain r t where g: "getAddress s L w = (r, t)" by (cases "getAddress s L w")
  have t: "\<And>e. e \<in> set t \<Longrightarrow> e = WalletConnect"
    using getAddress_events [of _ s L w] g by simp
  show ?thesis
  proof (cases r)
    case (Inl e)
    with assms g t show ?thesis by (auto simp: sendTransaction_run)
  next
    case (Inr a)
    with g have t1: "t = [WalletConnect]" using getAddress_Inr by blast
    with assms g Inr show ?thesis
      by (auto simp: sendTransaction_run Let_def split: sum.splits option.splits if_splits)
  qed
qed




text \<open>The same for the MetaMask script.\<close>

lemma mm_sendTransaction_signed:
  assumes "5 \<le> length (snd (mm_sendTransaction L w ta am me))"
  shows "\<exists>a reply rest.
           mm_getAddress L w = (Inr a, keygen_trace L (ethAddress a)) \<and>
           mm_getAccount w (rpc CONFIG_mm) (mm_bech32Addr a) = Inr reply \<and>
           snd (mm_sendTransaction L w ta am me) =
             keygen_trace L (ethAddress a) @
             GetAccount (rpc CONFIG_mm) (mm_bech32Addr a) #
             EthRequest ''personal_sign''
               [Some (''0x'' @ toHex L (mm_messageBytes L a (account_of_reply reply) ta am me)),
                ethAddress a] # rest"
proof -
  obtain r t where g: "mm_getAddress L w = (r, t)" by (cases "mm_getAddress L w")
  have t: "length t \<le> 3" using mm_getAddress_length [of L w] g by simp
  show ?thesis
  proof (cases r)
    case (Inl e)
    with assms g t show ?thesis by (auto simp: mm_sendTransaction_run)
  next
    case (Inr a)
    with g have t1: "t = keygen_trace L (ethAddress a)" using mm_getAddress_trace by blast
    have len: "length (keygen_trace L (ethAddress a)) = 3" by (simp add: keygen_trace_def)
    from assms g Inr t1 len show ?thesis
      by (auto simp: mm_sendTransaction_run Let_def split: sum.splits option.splits if_splits)
  qed
qed

lemma mm_sendTransaction_Post:
  assumes "Post u body \<in> set (snd (mm_sendTransaction L w ta am me))"
  shows "\<exists>a reply sigResult sig.
           mm_getAddress L w = (Inr a, keygen_trace L (ethAddress a)) \<and>
           mm_getAccount w (rpc CONFIG_mm) (mm_bech32Addr a) = Inr reply \<and>
           personal_sign w (''0x'' @ toHex L (mm_messageBytes L a (account_of_reply reply) ta am me))
             (ethAddress a) = Inr sigResult \<and>
           fromHex L (js_slice sigResult 2 (- 2)) = Some sig \<and>
           u = rpc CONFIG_mm \<and>
           body = JSON_stringify (broadcast_request L (mm_now w)
                    (TxRaw_encode L (mm_txRaw_of L a (account_of_reply reply) ta am me sig))) 0 \<and>
           snd (mm_sendTransaction L w ta am me) =
             keygen_trace L (ethAddress a) @
             [GetAccount (rpc CONFIG_mm) (mm_bech32Addr a),
              EthRequest ''personal_sign''
                [Some (''0x'' @ toHex L (mm_messageBytes L a (account_of_reply reply) ta am me)),
                 ethAddress a],
              Post u body]"
proof -
  obtain r t where g: "mm_getAddress L w = (r, t)" by (cases "mm_getAddress L w")
  have t: "Post u body \<notin> set t" using mm_getAddress_Post [of u body L w] g by simp
  show ?thesis
  proof (cases r)
    case (Inl e)
    with assms g t show ?thesis by (auto simp: mm_sendTransaction_run)
  next
    case (Inr a)
    with g have t1: "t = keygen_trace L (ethAddress a)" using mm_getAddress_trace by blast
    from assms g Inr t1 t show ?thesis
      by (auto simp: mm_sendTransaction_run Let_def split: sum.splits option.splits if_splits)
  qed
qed







lemma decimal_0: "decimal 0 = ''0''"
  by (simp add: decimal.simps digit_char_def)

lemma account_of_reply_None: "account_of_reply None = \<lparr>acc_accountNumber = 0, acc_sequence = 0\<rparr>"
  by (simp add: account_of_reply_def)

section \<open>Runs that fail\<close>




lemma sendTransaction_getAddress_fails:
  "getAddress s L w = (Inl e, t) \<Longrightarrow> sendTransaction s L w ta am me = (Inr (Caught e), t)"
  by (simp add: sendTransaction_run)










section \<open>Runs against a node that does not know the account\<close>

lemma sendTransaction_new_account:
  assumes "getAddress s L w = (Inr a, t)"
    and "node_getAccount w (rpc CONFIG) (bech32Addr a) = Inr None"
  shows "take 3 (snd (sendTransaction s L w ta am me)) =
           [WalletConnect, GetAccount (rpc CONFIG) (bech32Addr a),
            SignMessage (message_to_sign s L (SignDoc_encode L
              (signDoc_of s L a \<lparr>acc_accountNumber = 0, acc_sequence = 0\<rparr> ta am me)))]"
    and "wallet_signMessage w (message_to_sign s L (SignDoc_encode L
            (signDoc_of s L a \<lparr>acc_accountNumber = 0, acc_sequence = 0\<rparr> ta am me))) = Inr sig \<Longrightarrow>
         snd (sendTransaction s L w ta am me) =
           [WalletConnect, GetAccount (rpc CONFIG) (bech32Addr a),
            SignMessage (message_to_sign s L (SignDoc_encode L
              (signDoc_of s L a \<lparr>acc_accountNumber = 0, acc_sequence = 0\<rparr> ta am me))),
            Post (rpc CONFIG) (JSON_stringify (broadcast_request L (now w) (TxRaw_encode L
              (txRaw_of (signDoc_of s L a \<lparr>acc_accountNumber = 0, acc_sequence = 0\<rparr> ta am me)
                 sig))) 0)]"
proof -
  from assms(1) have t: "t = [WalletConnect]" using getAddress_Inr by blast
  show "take 3 (snd (sendTransaction s L w ta am me)) =
           [WalletConnect, GetAccount (rpc CONFIG) (bech32Addr a),
            SignMessage (message_to_sign s L (SignDoc_encode L
              (signDoc_of s L a \<lparr>acc_accountNumber = 0, acc_sequence = 0\<rparr> ta am me)))]"
    using assms t
    by (simp add: sendTransaction_run account_of_reply_None Let_def
             split: sum.splits option.splits)
  show "snd (sendTransaction s L w ta am me) =
           [WalletConnect, GetAccount (rpc CONFIG) (bech32Addr a),
            SignMessage (message_to_sign s L (SignDoc_encode L
              (signDoc_of s L a \<lparr>acc_accountNumber = 0, acc_sequence = 0\<rparr> ta am me))),
            Post (rpc CONFIG) (JSON_stringify (broadcast_request L (now w) (TxRaw_encode L
              (txRaw_of (signDoc_of s L a \<lparr>acc_accountNumber = 0, acc_sequence = 0\<rparr> ta am me)
                 sig))) 0)]"
    if "wallet_signMessage w (message_to_sign s L (SignDoc_encode L
            (signDoc_of s L a \<lparr>acc_accountNumber = 0, acc_sequence = 0\<rparr> ta am me))) = Inr sig"
    using assms t that
    by (simp add: sendTransaction_run account_of_reply_None Let_def
             split: sum.splits option.splits)
qed

lemma mm_sendTransaction_new_account:
  assumes "mm_getAddress L w = (Inr a, t)"
    and "mm_getAccount w (rpc CONFIG_mm) (mm_bech32Addr a) = Inr None"
  shows "take 5 (snd (mm_sendTransaction L w ta am me)) =
           t @ [GetAccount (rpc CONFIG_mm) (mm_bech32Addr a),
                EthRequest ''personal_sign''
                  [Some (''0x'' @ toHex L (mm_messageBytes L a
                     \<lparr>acc_accountNumber = 0, acc_sequence = 0\<rparr> ta am me)), ethAddress a]]"
    and "personal_sign w (''0x'' @ toHex L (mm_messageBytes L a
            \<lparr>acc_accountNumber = 0, acc_sequence = 0\<rparr> ta am me)) (ethAddress a) = Inr sigResult \<Longrightarrow>
         fromHex L (js_slice sigResult 2 (- 2)) = Some sig \<Longrightarrow>
         snd (mm_sendTransaction L w ta am me) =
           t @ [GetAccount (rpc CONFIG_mm) (mm_bech32Addr a),
                EthRequest ''personal_sign''
                  [Some (''0x'' @ toHex L (mm_messageBytes L a
                     \<lparr>acc_accountNumber = 0, acc_sequence = 0\<rparr> ta am me)), ethAddress a],
                Post (rpc CONFIG_mm) (JSON_stringify (broadcast_request L (mm_now w) (TxRaw_encode L
                  (mm_txRaw_of L a \<lparr>acc_accountNumber = 0, acc_sequence = 0\<rparr> ta am me sig))) 0)]"
proof -
  from assms(1) have len: "length t = 3"
    using mm_getAddress_trace [of L w a t] by (simp add: keygen_trace_def)
  show "take 5 (snd (mm_sendTransaction L w ta am me)) =
           t @ [GetAccount (rpc CONFIG_mm) (mm_bech32Addr a),
                EthRequest ''personal_sign''
                  [Some (''0x'' @ toHex L (mm_messageBytes L a
                     \<lparr>acc_accountNumber = 0, acc_sequence = 0\<rparr> ta am me)), ethAddress a]]"
    using assms len
    by (simp add: mm_sendTransaction_run account_of_reply_None Let_def
             split: sum.splits option.splits)
  show "snd (mm_sendTransaction L w ta am me) =
           t @ [GetAccount (rpc CONFIG_mm) (mm_bech32Addr a),
                EthRequest ''personal_sign''
                  [Some (''0x'' @ toHex L (mm_messageBytes L a
                     \<lparr>acc_accountNumber = 0, acc_sequence = 0\<rparr> ta am me)), ethAddress a],
                Post (rpc CONFIG_mm) (JSON_stringify (broadcast_request L (mm_now w) (TxRaw_encode L
                  (mm_txRaw_of L a \<lparr>acc_accountNumber = 0, acc_sequence = 0\<rparr> ta am me sig))) 0)]"
    if "personal_sign w (''0x'' @ toHex L (mm_messageBytes L a
            \<lparr>acc_accountNumber = 0, acc_sequence = 0\<rparr> ta am me)) (ethAddress a) = Inr sigResult"
      and "fromHex L (js_slice sigResult 2 (- 2)) = Some sig"
    using assms that
    by (simp add: mm_sendTransaction_run account_of_reply_None Let_def
             split: sum.splits option.splits)
qed

lemma signDoc_of_fields:
  "signDoc_of s L a acct ta am me =
     \<lparr>sd_bodyBytes = TxBody_encode L
        \<lparr>messages = [\<lparr>typeUrl = ''/cosmos.bank.v1beta1.MsgSend'',
                       any_value = MsgSend_encode L
                         \<lparr>fromAddress = bech32Addr a,
                          toAddress = js_or ta (bech32Addr a),
                          send_amount = [\<lparr>denom = ''unls'', amount = js_or am ''1000000''\<rparr>]\<rparr>\<rparr>],
         memo = js_or me (if s = Solflare then ''solflare-ed25519-test''
                          else ''phantom-ed25519-test'')\<rparr>,
      sd_authInfoBytes = AuthInfo_encode L
        \<lparr>signerInfos = [\<lparr>publicKey = \<lparr>typeUrl = pubkeyAny_typeUrl a,
                                         any_value = fromBase64 L (pubkeyAny_value a)\<rparr>,
                          modeInfo = SIGN_MODE_DIRECT,
                          sequence = acc_sequence acct\<rparr>],
         fee = \<lparr>fee_amount = [\<lparr>denom = ''unls'', amount = ''500''\<rparr>], gasLimit = 200000\<rparr>\<rparr>,
      sd_chainId = ''pirin-1'',
      sd_accountNumber = acc_accountNumber acct\<rparr>"
  by (cases s)
     (simp_all add: signDoc_of_def txBody_of_def msgSend_of_def authInfo_of_def default_memo_def
        CONFIG_def)

lemma message_to_sign_cases:
  "message_to_sign s L b = (if s = Phantom2 then utf8_reencode L b else b)"
  by (cases s) (simp_all add: message_to_sign_def)

lemma mm_txRaw_of_fields:
  "mm_txRaw_of L a acct ta am me sig =
     \<lparr>bodyBytes = TxBody_encode L
        \<lparr>messages = [\<lparr>typeUrl = ''/cosmos.bank.v1beta1.MsgSend'',
                       any_value = MsgSend_encode L
                         \<lparr>fromAddress = mm_bech32Addr a,
                          toAddress = js_or ta (mm_bech32Addr a),
                          send_amount = [\<lparr>denom = ''untrn'', amount = js_or am ''1000000''\<rparr>]\<rparr>\<rparr>],
         memo = js_or me ''Neutron Network transaction''\<rparr>,
      authInfoBytes = AuthInfo_encode L
        \<lparr>signerInfos = [\<lparr>publicKey = pubkeyAny a, modeInfo = SIGN_MODE_EIP_191,
                          sequence = acc_sequence acct\<rparr>],
         fee = \<lparr>fee_amount = [\<lparr>denom = ''untrn'', amount = ''5000''\<rparr>], gasLimit = 200000\<rparr>\<rparr>,
      signatures = [sig]\<rparr>"
  by (simp add: mm_txRaw_of_def mm_txBody_of_def mm_msgSend_of_def mm_authInfo_of_def CONFIG_mm_def)

section \<open>The sample runs\<close>

lemma sample_getAddress:
  "getAddress s ref_libs sample_world = (Inr sample_address, [WalletConnect])"
  by (cases s) (simp_all add: sample_world_def sample_address_def io_defs)

lemma sample_getAddress_new:
  "getAddress s ref_libs sample_world_new = (Inr sample_address, [WalletConnect])"
  by (cases s) (simp_all add: sample_world_new_def sample_world_def sample_address_def io_defs)

lemma sample_sendTransaction:
  "sendTransaction s ref_libs sample_world ta am me =
     (Inr (Sent (Some ''5F2A'') sample_result),
      [WalletConnect,
       GetAccount (rpc CONFIG) (bech32Addr sample_address),
       SignMessage (message_to_sign s ref_libs (SignDoc_encode ref_libs
         (signDoc_of s ref_libs sample_address \<lparr>acc_accountNumber = 7, acc_sequence = 3\<rparr> ta am me))),
       Post (rpc CONFIG) (JSON_stringify (broadcast_request ref_libs 1700000000000
         (TxRaw_encode ref_libs (txRaw_of
            (signDoc_of s ref_libs sample_address \<lparr>acc_accountNumber = 7, acc_sequence = 3\<rparr> ta am me)
            (replicate 64 0x5A)))) 0)])"
  unfolding sendTransaction_run sample_getAddress
  by (simp add: Let_def account_of_reply_def sample_world_def sample_result_def js_or_opt_def)

lemma sample_sendTransaction_new:
  "sendTransaction s ref_libs sample_world_new ta am me =
     (Inr (Sent (Some ''5F2A'') sample_result),
      [WalletConnect,
       GetAccount (rpc CONFIG) (bech32Addr sample_address),
       SignMessage (message_to_sign s ref_libs (SignDoc_encode ref_libs
         (signDoc_of s ref_libs sample_address \<lparr>acc_accountNumber = 0, acc_sequence = 0\<rparr> ta am me))),
       Post (rpc CONFIG) (JSON_stringify (broadcast_request ref_libs 1700000000000
         (TxRaw_encode ref_libs (txRaw_of
            (signDoc_of s ref_libs sample_address \<lparr>acc_accountNumber = 0, acc_sequence = 0\<rparr> ta am me)
            (replicate 64 0x5A)))) 0)])"
  unfolding sendTransaction_run sample_getAddress_new
  by (simp add: Let_def account_of_reply_def sample_world_new_def sample_world_def
        sample_result_def js_or_opt_def)

lemma length_concat_replicate: "length (concat (replicate n xs)) = n * length xs"
  by (induction n) simp_all

lemma length_sample_signature: "length sample_signature = 132"
  by (simp add: sample_signature_def length_concat_replicate)

lemma sample_recover:
  "recoverPublicKey ref_libs d sample_signature
     = Some (''0x04'' @ concat (replicate 32 ''11'') @ concat (replicate 32 ''25''))"
  by (simp add: ref_libs_def ref_recoverPublicKey_def length_sample_signature)

lemma sample_mm_recover_key:
  "mm_recover_key ref_libs sample_mm_world =
     (Inr (Some ''0x52908400098527886E0F7030069857D2E4169EE7'', sample_compressed),
      keygen_trace ref_libs (Some ''0x52908400098527886E0F7030069857D2E4169EE7''))"
  by (simp add: mm_recover_key_def io_defs Let_def sample_recover keygen_trace_def
        sample_compressed_def sample_mm_world_def)

lemma sample_mm_getAddress:
  "mm_getAddress ref_libs sample_mm_world =
     (Inr sample_mm_address, keygen_trace ref_libs (Some ''0x52908400098527886E0F7030069857D2E4169EE7''))"
  by (simp add: mm_getAddress_def sample_mm_recover_key io_defs sample_mm_address_def)

lemma sample_mm_recover_key_new:
  "mm_recover_key ref_libs sample_mm_world_new = mm_recover_key ref_libs sample_mm_world"
  by (simp add: mm_recover_key_def sample_mm_world_new_def)

lemma sample_mm_getAddress_new:
  "mm_getAddress ref_libs sample_mm_world_new =
     (Inr sample_mm_address, keygen_trace ref_libs (Some ''0x52908400098527886E0F7030069857D2E4169EE7''))"
  by (simp add: mm_getAddress_def sample_mm_recover_key_new sample_mm_recover_key io_defs
        sample_mm_address_def)

lemma sample_raw_signature: "js_slice sample_signature 2 (- 2) = concat (replicate 64 ''ab'')"
  by (simp add: js_slice_def sample_signature_def length_concat_replicate Let_def)

lemma ref_fromHex_ab: "ref_fromHex (concat (replicate n ''ab'')) = Some (replicate n 0xAB)"
  by (induction n) (simp_all add: hex_value_def)

lemma sample_fromHex:
  "fromHex ref_libs (js_slice sample_signature 2 (- 2)) = Some (replicate 64 0xAB)"
  by (simp add: sample_raw_signature ref_libs_def ref_fromHex_ab)

lemma sample_mm_sendTransaction:
  "mm_sendTransaction ref_libs sample_mm_world ta am me =
     (Inr (MM_Sent (Some ''5F2A'') sample_result),
      keygen_trace ref_libs (Some ''0x52908400098527886E0F7030069857D2E4169EE7'') @
      [GetAccount (rpc CONFIG_mm) (mm_bech32Addr sample_mm_address),
       EthRequest ''personal_sign''
         [Some (''0x'' @ toHex ref_libs (mm_messageBytes ref_libs sample_mm_address
                  \<lparr>acc_accountNumber = 7, acc_sequence = 3\<rparr> ta am me)),
          Some ''0x52908400098527886E0F7030069857D2E4169EE7''],
       Post (rpc CONFIG_mm) (JSON_stringify (broadcast_request ref_libs 1700000000000
         (TxRaw_encode ref_libs (mm_txRaw_of ref_libs sample_mm_address
            \<lparr>acc_accountNumber = 7, acc_sequence = 3\<rparr> ta am me (replicate 64 0xAB)))) 0)])"
  unfolding mm_sendTransaction_run sample_mm_getAddress
  by (simp add: Let_def account_of_reply_def sample_mm_world_def sample_fromHex sample_result_def
        sample_mm_address_def)

lemma sample_mm_sendTransaction_new:
  "mm_sendTransaction ref_libs sample_mm_world_new ta am me =
     (Inr (MM_Sent (Some ''5F2A'') sample_result),
      keygen_trace ref_libs (Some ''0x52908400098527886E0F7030069857D2E4169EE7'') @
      [GetAccount (rpc CONFIG_mm) (mm_bech32Addr sample_mm_address),
       EthRequest ''personal_sign''
         [Some (''0x'' @ toHex ref_libs (mm_messageBytes ref_libs sample_mm_address
                  \<lparr>acc_accountNumber = 0, acc_sequence = 0\<rparr> ta am me)),
          Some ''0x52908400098527886E0F7030069857D2E4169EE7''],
       Post (rpc CONFIG_mm) (JSON_stringify (broadcast_request ref_libs 1700000000000
         (TxRaw_encode ref_libs (mm_txRaw_of ref_libs sample_mm_address
            \<lparr>acc_accountNumber = 0, acc_sequence = 0\<rparr> ta am me (replicate 64 0xAB)))) 0)])"
  unfolding mm_sendTransaction_run sample_mm_getAddress_new
  by (simp add: Let_def account_of_reply_def sample_mm_world_new_def sample_mm_world_def
        sample_fromHex sample_result_def sample_mm_address_def)

lemma decimal_digit: "n < 10 \<Longrightarrow> decimal n = [digit_char n]"
  by (simp add: decimal.simps)

section \<open>The compressed key\<close>

text \<open>The two slices of the uncompressed key, and the sample key byte by byte.\<close>

lemma js_slice_1_33: "js_slice u 1 33 = take 32 (drop 1 u)"
  by (cases u) (auto simp: js_slice_def Let_def min_def)

lemma js_slice_from_33: "js_slice_from u 33 = drop 33 u"
  by (auto simp: js_slice_from_def js_slice_def Let_def min_def)

lemma compress_key_bytes:
  "compress_key u =
     (if drop 33 u \<noteq> [] \<and> odd (unat (last (drop 33 u))) then 0x03 else 0x02) #
       take 32 (drop 1 u) @ replicate (32 - length (take 32 (drop 1 u))) 0"
  by (simp add: compress_key_def Let_def js_slice_1_33 js_slice_from_33)

lemma compress_key_65:
  "length u = 65 \<Longrightarrow>
     compress_key u = (if odd (unat (last u)) then 0x03 else 0x02) # take 32 (drop 1 u)"
  by (simp add: compress_key_bytes)

lemma ref_fromHex_11:
  "ref_fromHex r = Some bs \<Longrightarrow>
     ref_fromHex (concat (replicate n ''11'') @ r) = Some (replicate n 0x11 @ bs)"
  by (induction n) (simp_all add: hex_value_def)

lemma ref_fromHex_25: "ref_fromHex (concat (replicate n ''25'')) = Some (replicate n 0x25)"
  by (induction n) (simp_all add: hex_value_def)

lemma sample_uncompressed:
  "getBytes ref_libs (''0x04'' @ concat (replicate 32 ''11'') @ concat (replicate 32 ''25''))
     = 0x04 # replicate 32 0x11 @ replicate 32 0x25"
  by (simp add: ref_libs_def ref_getBytes_def ref_fromHex_11 [OF ref_fromHex_25] hex_value_def)

lemma sample_compressed_bytes: "sample_compressed = 0x03 # replicate 32 0x11"
  unfolding sample_compressed_def sample_uncompressed
  by (simp add: compress_key_65)

section \<open>Re-encoding through a string\<close>

text \<open>The reference decoder never lets the byte \<^verbatim>\<open>0xFF\<close> through: it starts no
  well-formed sequence and continues none.\<close>

lemma len_FF: "utf8_sequence_length (0xFF # rest) = 0"
  by (simp add: utf8_sequence_length_def Let_def split: list.splits)

lemma utf8_len_shape:
  "utf8_sequence_length (b # rest) = k \<Longrightarrow> k \<noteq> 0 \<Longrightarrow>
     k = 1 \<or>
     (k = 2 \<and> (\<exists>c r. rest = c # r \<and> is_continuation c)) \<or>
     (k = 3 \<and> (\<exists>c d r. rest = c # d # r \<and> is_continuation c \<and> is_continuation d)) \<or>
     (k = 4 \<and> (\<exists>c d e r. rest = c # d # e # r \<and> is_continuation c \<and> is_continuation d
                  \<and> is_continuation e))"
  by (simp add: utf8_sequence_length_def Let_def split: if_splits list.splits)

lemma continuation_not_FF: "is_continuation x \<Longrightarrow> x \<noteq> 0xFF"
  by (auto simp: is_continuation_def)

lemma utf8_valid_no_FF:
  assumes "utf8_sequence_length bs \<noteq> 0"
  shows "0xFF \<notin> set (take (utf8_sequence_length bs) bs)"
proof (cases bs)
  case Nil
  then show ?thesis by simp
next
  case (Cons b rest)
  with assms len_FF have b: "b \<noteq> 0xFF" by auto
  from utf8_len_shape [OF refl, of b rest] assms Cons
  consider "utf8_sequence_length bs = 1"
    | c r where "utf8_sequence_length bs = 2" "rest = c # r" "is_continuation c"
    | c d r where "utf8_sequence_length bs = 3" "rest = c # d # r" "is_continuation c" "is_continuation d"
    | c d e r where "utf8_sequence_length bs = 4" "rest = c # d # e # r" "is_continuation c"
        "is_continuation d" "is_continuation e"
    by auto
  then show ?thesis
  proof cases
    case 1
    with Cons b show ?thesis by simp
  next
    case 2
    with Cons b continuation_not_FF show ?thesis by (auto simp: numeral_2_eq_2)
  next
    case 3
    with Cons b continuation_not_FF show ?thesis by (auto simp: numeral_3_eq_3)
  next
    case 4
    with Cons b continuation_not_FF show ?thesis
      by (auto simp: eval_nat_numeral)
  qed
qed

lemma ref_utf8_reencode_no_FF: "0xFF \<notin> set (ref_utf8_reencode bs)"
proof (induction bs rule: ref_utf8_reencode.induct)
  case (1 bs)
  show ?case
  proof (cases "bs = []")
    case True
    then show ?thesis by (simp add: ref_utf8_reencode.simps)
  next
    case False
    show ?thesis
    proof (cases "utf8_sequence_length bs = 0")
      case True
      with False 1(1) show ?thesis
        by (subst ref_utf8_reencode.simps) simp
    next
      case nz: False
      with False 1(2) utf8_valid_no_FF [OF nz] show ?thesis
        by (subst ref_utf8_reencode.simps) simp
    qed
  qed
qed

lemma set_pb_bytes: "set bs \<subseteq> set (pb_bytes f bs)"
  by (auto simp: pb_bytes_def)

text \<open>The sample key, thirty-two bytes \<^verbatim>\<open>0xFF\<close>, stands in every document the sample
  runs sign.\<close>

lemma replicate_32: "replicate 32 x = [x,x,x,x,x,x,x,x,x,x,x,x,x,x,x,x,x,x,x,x,x,x,x,x,x,x,x,x,x,x,x,x]"
  by (simp add: eval_nat_numeral)

lemma sample_key_proto:
  "ref_PubKey_encode (replicate 32 0xFF) = 0x0A # 0x20 # replicate 32 0xFF"
  by (simp add: ref_PubKey_encode_def pb_bytes_def varint.simps)

lemma sample_key_base64:
  "ref_toBase64 (0x0A # 0x20 # replicate 32 0xFF) = ''CiD//////////////////////////////////////////w==''"
  by (simp add: replicate_32 b64_char_def Let_def)

lemma sample_key_roundtrip:
  "ref_fromBase64 ''CiD//////////////////////////////////////////w=='' = 0x0A # 0x20 # replicate 32 0xFF"
  by (simp add: replicate_32 b64_value_def Let_def)

lemma sample_key_any_value:
  "fromBase64 ref_libs (pubkeyAny_value sample_address) = 0x0A # 0x20 # replicate 32 0xFF"
proof -
  have "pubkeyAny_value sample_address = ref_toBase64 (ref_PubKey_encode (replicate 32 0xFF))"
    by (simp add: sample_address_def address_of_publicKey_def ref_libs_def sample_key_def Let_def)
  moreover have "fromBase64 ref_libs = ref_fromBase64"
    by (simp add: ref_libs_def)
  ultimately show ?thesis
    by (simp only: sample_key_proto sample_key_base64 sample_key_roundtrip)
qed

lemma in_pb_bytes: "x \<in> set bs \<Longrightarrow> x \<in> set (pb_bytes f bs)"
  using set_pb_bytes by blast

lemma sample_authInfo_has_FF:
  "0xFF \<in> set (AuthInfo_encode ref_libs (authInfo_of ref_libs sample_address sq))"
proof -
  let ?pk = "\<lparr>typeUrl = pubkeyAny_typeUrl sample_address,
              any_value = fromBase64 ref_libs (pubkeyAny_value sample_address)\<rparr>"
  have "0xFF \<in> set (any_value ?pk)" by (simp add: sample_key_any_value)
  then have "0xFF \<in> set (ref_Any_encode ?pk)"
    by (simp add: ref_Any_encode_def sample_key_any_value in_pb_bytes)
  then have "0xFF \<in> set (ref_SignerInfo_encode
      \<lparr>publicKey = ?pk, modeInfo = SIGN_MODE_DIRECT, sequence = sq\<rparr>)"
    by (simp add: ref_SignerInfo_encode_def in_pb_bytes)
  then show ?thesis
    by (simp add: authInfo_of_def ref_libs_def ref_AuthInfo_encode_def in_pb_bytes)
qed

lemma sample_signBytes_has_FF:
  "0xFF \<in> set (SignDoc_encode ref_libs (signDoc_of s ref_libs sample_address acct ta am me))"
proof -
  have "0xFF \<in> set (sd_authInfoBytes (signDoc_of s ref_libs sample_address acct ta am me))"
    by (simp add: signDoc_of_def sample_authInfo_has_FF)
  then show ?thesis
    by (auto simp: ref_libs_def ref_SignDoc_encode_def in_pb_bytes)
qed

section \<open>Facts about the unit converters\<close>







































section \<open>C1: the derived address\<close>

text \<open>
  Claim C1.  Whenever \<^verbatim>\<open>getAddress\<close> of a Solflare or Phantom script returns, the wallet
  has handed over a public key and the address returned is the bech32 encoding, with prefix
  \<^verbatim>\<open>nolus\<close>, of the first 20 bytes of SHA-256 of the key's bytes.  Whenever
  \<^verbatim>\<open>getAddress\<close> of the MetaMask script returns, the wallet has signed the message
  \<^verbatim>\<open>Generate Cosmos pubkey\<close> for the listed account and a public key \<open>u\<close> was recovered
  from that signature.  The compressed key \<open>k\<close> is one byte, \<^verbatim>\<open>0x03\<close> when the last byte
  of \<open>u\<close> from position 33 on is odd and \<^verbatim>\<open>0x02\<close> otherwise, followed by the bytes 1 to
  32 of \<open>u\<close>, filled with zeros to 33 bytes; for an uncompressed key of 65 bytes that is the
  parity byte of \<open>y\<close> followed by \<open>x\<close>.  \<open>k\<close> is the key put into the proto \<^verbatim>\<open>Any\<close>, and
  the address is the bech32 encoding, with prefix \<^verbatim>\<open>neutron\<close>, of RIPEMD-160 of SHA-256
  of \<open>k\<close>.  That the wallet's ed25519 key has 32 bytes, and the recovered key 65, is the
  wallet's and the library's promise; the scripts do not check it.
\<close>

theorem C1_address_derivation:
  "(getAddress s L w = (Inr a, t) \<longrightarrow>
      (\<exists>r pk. wallet_connect w = Inr r \<and> reply_publicKey r = Some pk \<and>
         bech32Addr a =
           bech32_encode L ''nolus'' (bech32_toWords L (take 20 (sha256 L (toBytes pk))))))
   \<and> (mm_getAddress L mw = (Inr ma, mt) \<longrightarrow>
      (\<exists>sig full.
         personal_sign mw (hexlify L (toUtf8Bytes L ''Generate Cosmos pubkey'')) (ethAddress ma)
           = Inr sig \<and>
         recoverPublicKey L (hashMessage L ''Generate Cosmos pubkey'') sig = Some full \<and>
         (let u = getBytes L full;
              x = take 32 (drop 1 u);
              y = drop 33 u;
              k = (if y \<noteq> [] \<and> odd (unat (last y)) then 0x03 else 0x02) #
                    x @ replicate (32 - length x) 0
          in length k = 33 \<and>
             (length u = 65 \<longrightarrow>
                k = (if odd (unat (last u)) then 0x03 else 0x02) # take 32 (drop 1 u)) \<and>
             pubkeyAny ma =
               \<lparr>typeUrl = ''/cosmos.crypto.secp256k1.PubKey'', any_value = PubKey_encode L k\<rparr> \<and>
             mm_bech32Addr ma =
               bech32_encode L ''neutron'' (bech32_toWords L (ripemd160 L (sha256 L k))))))"
proof (intro conjI impI)
  assume "getAddress s L w = (Inr a, t)"
  from getAddress_Inr [OF this]
  show "\<exists>r pk. wallet_connect w = Inr r \<and> reply_publicKey r = Some pk \<and>
         bech32Addr a =
           bech32_encode L ''nolus'' (bech32_toWords L (take 20 (sha256 L (toBytes pk))))"
    by (auto simp: address_of_publicKey_def Let_def CONFIG_def js_slice_prefix)
next
  assume "mm_getAddress L mw = (Inr ma, mt)"
  from mm_getAddress_Inr [OF this] obtain k where
    k: "mm_recover_key L mw = (Inr (ethAddress ma, k), mt)"
       "pubkeyAny ma = \<lparr>typeUrl = ''/cosmos.crypto.secp256k1.PubKey'', any_value = PubKey_encode L k\<rparr>"
       "mm_bech32Addr ma = mm_address_of_key L k"
    by blast
  from mm_recover_key_Inr [OF k(1)] obtain sig full where
    r: "personal_sign mw (hexlify L (toUtf8Bytes L ''Generate Cosmos pubkey'')) (ethAddress ma) = Inr sig"
       "recoverPublicKey L (hashMessage L ''Generate Cosmos pubkey'') sig = Some full"
       "k = compress_key (getBytes L full)"
    by blast
  have "let u = getBytes L full;
              x = take 32 (drop 1 u);
              y = drop 33 u;
              k = (if y \<noteq> [] \<and> odd (unat (last y)) then 0x03 else 0x02) #
                    x @ replicate (32 - length x) 0
          in length k = 33 \<and>
             (length u = 65 \<longrightarrow>
                k = (if odd (unat (last u)) then 0x03 else 0x02) # take 32 (drop 1 u)) \<and>
             pubkeyAny ma =
               \<lparr>typeUrl = ''/cosmos.crypto.secp256k1.PubKey'', any_value = PubKey_encode L k\<rparr> \<and>
             mm_bech32Addr ma =
               bech32_encode L ''neutron'' (bech32_toWords L (ripemd160 L (sha256 L k)))"
    using k(2,3) length_compress_key [of "getBytes L full"]
    unfolding r(3) compress_key_bytes Let_def mm_address_of_key_def
    by (simp add: CONFIG_mm_def)
  with r(1,2) show "\<exists>sig full.
         personal_sign mw (hexlify L (toUtf8Bytes L ''Generate Cosmos pubkey'')) (ethAddress ma)
           = Inr sig \<and>
         recoverPublicKey L (hashMessage L ''Generate Cosmos pubkey'') sig = Some full \<and>
         (let u = getBytes L full;
              x = take 32 (drop 1 u);
              y = drop 33 u;
              k = (if y \<noteq> [] \<and> odd (unat (last y)) then 0x03 else 0x02) #
                    x @ replicate (32 - length x) 0
          in length k = 33 \<and>
             (length u = 65 \<longrightarrow>
                k = (if odd (unat (last u)) then 0x03 else 0x02) # take 32 (drop 1 u)) \<and>
             pubkeyAny ma =
               \<lparr>typeUrl = ''/cosmos.crypto.secp256k1.PubKey'', any_value = PubKey_encode L k\<rparr> \<and>
             mm_bech32Addr ma =
               bech32_encode L ''neutron'' (bech32_toWords L (ripemd160 L (sha256 L k))))"
    by blast
qed

text \<open>The sample runs return an address, so both halves of C1 speak about them; the sample
  key recovered has 65 bytes and an odd \<open>y\<close>.\<close>

theorem C1_address_derivation_witness:
  "getAddress Solflare ref_libs sample_world = (Inr sample_address, [WalletConnect])
   \<and> (\<exists>r pk. wallet_connect sample_world = Inr r \<and> reply_publicKey r = Some pk \<and>
         bech32Addr sample_address =
           bech32_encode ref_libs ''nolus''
             (bech32_toWords ref_libs (take 20 (sha256 ref_libs (toBytes pk)))))
   \<and> mm_getAddress ref_libs sample_mm_world =
        (Inr sample_mm_address,
         keygen_trace ref_libs (Some ''0x52908400098527886E0F7030069857D2E4169EE7''))
   \<and> recoverPublicKey ref_libs (hashMessage ref_libs ''Generate Cosmos pubkey'') sample_signature
        = Some (''0x04'' @ concat (replicate 32 ''11'') @ concat (replicate 32 ''25''))
   \<and> length (getBytes ref_libs
        (''0x04'' @ concat (replicate 32 ''11'') @ concat (replicate 32 ''25''))) = 65
   \<and> pubkeyAny sample_mm_address =
        \<lparr>typeUrl = ''/cosmos.crypto.secp256k1.PubKey'',
         any_value = PubKey_encode ref_libs (0x03 # replicate 32 0x11)\<rparr>
   \<and> mm_bech32Addr sample_mm_address =
        bech32_encode ref_libs ''neutron''
          (bech32_toWords ref_libs (ripemd160 ref_libs (sha256 ref_libs (0x03 # replicate 32 0x11))))"
proof -
  have h1: "getAddress Solflare ref_libs sample_world = (Inr sample_address, [WalletConnect])"
    by (rule sample_getAddress)
  have h2: "mm_getAddress ref_libs sample_mm_world =
        (Inr sample_mm_address,
         keygen_trace ref_libs (Some ''0x52908400098527886E0F7030069857D2E4169EE7''))"
    by (rule sample_mm_getAddress)
  note c = C1_address_derivation [of Solflare ref_libs sample_world sample_address "[WalletConnect]"
      sample_mm_world sample_mm_address
      "keygen_trace ref_libs (Some ''0x52908400098527886E0F7030069857D2E4169EE7'')"]
  from c [THEN conjunct1, rule_format, OF h1]
  have p1: "\<exists>r pk. wallet_connect sample_world = Inr r \<and> reply_publicKey r = Some pk \<and>
         bech32Addr sample_address =
           bech32_encode ref_libs ''nolus''
             (bech32_toWords ref_libs (take 20 (sha256 ref_libs (toBytes pk))))" .
  have ps: "personal_sign sample_mm_world m e = Inr sample_signature" for m e
    by (simp add: sample_mm_world_def)
  from c [THEN conjunct2, rule_format, OF h2] obtain sig full where
    a: "personal_sign sample_mm_world (hexlify ref_libs (toUtf8Bytes ref_libs ''Generate Cosmos pubkey''))
          (ethAddress sample_mm_address) = Inr sig"
       "recoverPublicKey ref_libs (hashMessage ref_libs ''Generate Cosmos pubkey'') sig = Some full"
    and b: "let u = getBytes ref_libs full;
              x = take 32 (drop 1 u);
              y = drop 33 u;
              k = (if y \<noteq> [] \<and> odd (unat (last y)) then 0x03 else 0x02) #
                    x @ replicate (32 - length x) 0
          in length k = 33 \<and>
             (length u = 65 \<longrightarrow>
                k = (if odd (unat (last u)) then 0x03 else 0x02) # take 32 (drop 1 u)) \<and>
             pubkeyAny sample_mm_address =
               \<lparr>typeUrl = ''/cosmos.crypto.secp256k1.PubKey'', any_value = PubKey_encode ref_libs k\<rparr> \<and>
             mm_bech32Addr sample_mm_address =
               bech32_encode ref_libs ''neutron''
                 (bech32_toWords ref_libs (ripemd160 ref_libs (sha256 ref_libs k)))"
    by (elim exE conjE) (rule that)
  from a(1) have "sig = sample_signature" by (simp add: ps)
  with a(2) have "full = ''0x04'' @ concat (replicate 32 ''11'') @ concat (replicate 32 ''25'')"
    by (simp only: sample_recover option.inject)
  then have u: "getBytes ref_libs full = 0x04 # replicate 32 0x11 @ replicate 32 0x25"
    by (simp only: sample_uncompressed)
  from b have p2: "pubkeyAny sample_mm_address =
        \<lparr>typeUrl = ''/cosmos.crypto.secp256k1.PubKey'',
         any_value = PubKey_encode ref_libs (0x03 # replicate 32 0x11)\<rparr>
     \<and> mm_bech32Addr sample_mm_address =
        bech32_encode ref_libs ''neutron''
          (bech32_toWords ref_libs (ripemd160 ref_libs (sha256 ref_libs (0x03 # replicate 32 0x11))))"
    unfolding u Let_def by simp
  have len: "length (getBytes ref_libs
        (''0x04'' @ concat (replicate 32 ''11'') @ concat (replicate 32 ''25''))) = 65"
    unfolding sample_uncompressed by simp
  from h1 p1 h2 p2 len sample_recover show ?thesis by simp
qed

section \<open>C2: what the Phantom and Solflare scripts hand to the wallet\<close>

text \<open>
  Claim C2 says that in the Phantom and Solflare scripts the message passed to
  \<^verbatim>\<open>signMessage\<close> is exactly the encoded \<^verbatim>\<open>SignDoc\<close>, and no re-encoding of it.  The
  Solflare script and the first Phantom script do pass \<^verbatim>\<open>signBytes\<close>.  The second
  Phantom script, under the comment \<^verbatim>\<open>Sign with Phantom (raw bytes, ed25519)\<close>, passes
  \<^verbatim>\<open>new TextEncoder().encode(Buffer.from(signBytes).toString())\<close>: the bytes decoded as
  UTF-8 text and encoded again, which changes every byte that is not part of well-formed
  UTF-8.  In the sample run the public key consists of such bytes, so the wallet is asked
  to sign bytes that differ from the \<^verbatim>\<open>SignDoc\<close> bytes, and the \<^verbatim>\<open>SignDoc\<close> bytes
  themselves are never passed to it.
\<close>

theorem C2_phantom2_signs_reencoded_bytes:
  "(let signBytes = SignDoc_encode ref_libs
          (signDoc_of Phantom2 ref_libs sample_address
             \<lparr>acc_accountNumber = 7, acc_sequence = 3\<rparr> None None None);
        trace = snd (sendTransaction Phantom2 ref_libs sample_world None None None)
    in SignMessage (utf8_reencode ref_libs signBytes) \<in> set trace
       \<and> utf8_reencode ref_libs signBytes \<noteq> signBytes
       \<and> SignMessage signBytes \<notin> set trace)"
proof -
  let ?sb = "SignDoc_encode ref_libs
          (signDoc_of Phantom2 ref_libs sample_address
             \<lparr>acc_accountNumber = 7, acc_sequence = 3\<rparr> None None None)"
  have "0xFF \<in> set ?sb" by (rule sample_signBytes_has_FF)
  moreover have "0xFF \<notin> set (utf8_reencode ref_libs ?sb)"
    by (simp add: ref_libs_def ref_utf8_reencode_no_FF)
  ultimately have ne: "utf8_reencode ref_libs ?sb \<noteq> ?sb" by metis
  then show ?thesis
    by (simp add: sample_sendTransaction message_to_sign_def Let_def)
qed

section \<open>C3: failures surface, success means code 0, nothing is retried\<close>



section \<open>C4: what the MetaMask script signs\<close>

text \<open>
  Claim C4.  In every run of the MetaMask \<^verbatim>\<open>sendTransaction\<close> that gets to its fifth
  external call, that call is \<^verbatim>\<open>personal_sign\<close> on \<^verbatim>\<open>0x\<close> followed by the hex of the
  UTF-8 bytes of \<^verbatim>\<open>JSON.stringify(exactSignDoc, null, 4)\<close>, and both coin objects of the
  document list \<^verbatim>\<open>amount\<close> before \<^verbatim>\<open>denom\<close>.  In every run that posts, the posted
  \<^verbatim>\<open>TxRaw\<close> has exactly one signature, which is the wallet's answer to that request with
  its first two and last two characters cut off, read as hex, and the \<^verbatim>\<open>SignerInfo\<close> of
  its \<^verbatim>\<open>AuthInfo\<close> declares \<^verbatim>\<open>SIGN_MODE_EIP_191\<close>.  The last three conjuncts spell out
  the cut (for a text of the form \<^verbatim>\<open>0x\<close>, hex, two characters of recovery id) and the
  serialised text: indentation by four spaces, and \<^verbatim>\<open>amount\<close> before \<^verbatim>\<open>denom\<close> in every
  coin.  That \<^verbatim>\<open>personal_sign\<close> prefixes the message as EIP-191 prescribes is the wallet's
  doing and outside the script.
\<close>

theorem C4_metamask_json_signing:
  "(5 \<le> length (snd (mm_sendTransaction L mw ta am me)) \<longrightarrow>
      (\<exists>(a::mm_address_info) acct rest.
         drop 4 (snd (mm_sendTransaction L mw ta am me)) =
           EthRequest ''personal_sign''
             [Some (''0x'' @ toHex L (toUtf8Bytes L
                      (JSON_stringify (exactSignDoc a acct ta am me) 4))),
              ethAddress a] # rest \<and>
         json_get [Key ''fee'', Key ''amount'', Idx 0] (exactSignDoc a acct ta am me)
           = Some (JObj [(''amount'', JStr ''5000''), (''denom'', JStr ''untrn'')]) \<and>
         json_get [Key ''msgs'', Idx 0, Key ''value'', Key ''amount'', Idx 0]
             (exactSignDoc a acct ta am me)
           = Some (JObj [(''amount'', JStr (js_or am ''1000000'')), (''denom'', JStr ''untrn'')])))
   \<and> (Post u body \<in> set (snd (mm_sendTransaction L mw ta am me)) \<longrightarrow>
      (\<exists>(a::mm_address_info) acct sigResult sig bb (ai::AuthInfo).
         personal_sign mw
           (''0x'' @ toHex L (toUtf8Bytes L (JSON_stringify (exactSignDoc a acct ta am me) 4)))
           (ethAddress a) = Inr sigResult \<and>
         fromHex L (js_slice sigResult 2 (- 2)) = Some sig \<and>
         body = JSON_stringify (broadcast_request L (mm_now mw) (TxRaw_encode L
                  \<lparr>bodyBytes = bb, authInfoBytes = AuthInfo_encode L ai, signatures = [sig]\<rparr>)) 0 \<and>
         map modeInfo (signerInfos ai) = [SIGN_MODE_EIP_191]))
   \<and> js_slice (''0x'' @ hex @ [r1, r2]) 2 (- 2) = hex
   \<and> JSON_stringify v 4 = json_value ''    '' [] v
   \<and> json_value ''    '' ind (JObj [(''amount'', JStr x), (''denom'', JStr y)])
      = ''{'' @ ''\<newline>'' @ ind @ ''    '' @ json_quote ''amount'' @ '': '' @ json_quote x @ '','' @
        ''\<newline>'' @ ind @ ''    '' @ json_quote ''denom'' @ '': '' @ json_quote y @
        ''\<newline>'' @ ind @ ''}''"
proof (intro conjI impI)
  assume "5 \<le> length (snd (mm_sendTransaction L mw ta am me))"
  from mm_sendTransaction_signed [OF this] obtain a reply rest where
    h: "snd (mm_sendTransaction L mw ta am me) =
             keygen_trace L (ethAddress a) @
             GetAccount (rpc CONFIG_mm) (mm_bech32Addr a) #
             EthRequest ''personal_sign''
               [Some (''0x'' @ toHex L (mm_messageBytes L a (account_of_reply reply) ta am me)),
                ethAddress a] # rest"
    by blast
  show "\<exists>(a::mm_address_info) acct rest.
         drop 4 (snd (mm_sendTransaction L mw ta am me)) =
           EthRequest ''personal_sign''
             [Some (''0x'' @ toHex L (toUtf8Bytes L
                      (JSON_stringify (exactSignDoc a acct ta am me) 4))),
              ethAddress a] # rest \<and>
         json_get [Key ''fee'', Key ''amount'', Idx 0] (exactSignDoc a acct ta am me)
           = Some (JObj [(''amount'', JStr ''5000''), (''denom'', JStr ''untrn'')]) \<and>
         json_get [Key ''msgs'', Idx 0, Key ''value'', Key ''amount'', Idx 0]
             (exactSignDoc a acct ta am me)
           = Some (JObj [(''amount'', JStr (js_or am ''1000000'')), (''denom'', JStr ''untrn'')])"
    apply (rule exI [of _ a])
    apply (rule exI [of _ "account_of_reply reply"])
    apply (rule exI [of _ rest])
    using h
    by (simp add: mm_messageBytes_def keygen_trace_def exactSignDoc_def CONFIG_mm_def)
next
  assume "Post u body \<in> set (snd (mm_sendTransaction L mw ta am me))"
  from mm_sendTransaction_Post [OF this] obtain a reply sigResult sig where
    h: "personal_sign mw (''0x'' @ toHex L (mm_messageBytes L a (account_of_reply reply) ta am me))
             (ethAddress a) = Inr sigResult"
       "fromHex L (js_slice sigResult 2 (- 2)) = Some sig"
       "body = JSON_stringify (broadcast_request L (mm_now mw)
                    (TxRaw_encode L (mm_txRaw_of L a (account_of_reply reply) ta am me sig))) 0"
    by blast
  show "\<exists>(a::mm_address_info) acct sigResult sig bb (ai::AuthInfo).
         personal_sign mw
           (''0x'' @ toHex L (toUtf8Bytes L (JSON_stringify (exactSignDoc a acct ta am me) 4)))
           (ethAddress a) = Inr sigResult \<and>
         fromHex L (js_slice sigResult 2 (- 2)) = Some sig \<and>
         body = JSON_stringify (broadcast_request L (mm_now mw) (TxRaw_encode L
                  \<lparr>bodyBytes = bb, authInfoBytes = AuthInfo_encode L ai, signatures = [sig]\<rparr>)) 0 \<and>
         map modeInfo (signerInfos ai) = [SIGN_MODE_EIP_191]"
    apply (rule exI [of _ a])
    apply (rule exI [of _ "account_of_reply reply"])
    apply (rule exI [of _ sigResult])
    apply (rule exI [of _ sig])
    apply (rule exI [of _ "TxBody_encode L (mm_txBody_of L a ta am me)"])
    apply (rule exI [of _ "mm_authInfo_of a (acc_sequence (account_of_reply reply))"])
    using h
    by (simp add: mm_messageBytes_def mm_txRaw_of_def mm_authInfo_of_def)
next
  show "js_slice (''0x'' @ hex @ [r1, r2]) 2 (- 2) = hex"
    by (simp add: js_slice_def Let_def)
next
  show "JSON_stringify v 4 = json_value ''    '' [] v"
    by (simp add: JSON_stringify_def numeral_eq_Suc)
next
  show "json_value ''    '' ind (JObj [(''amount'', JStr x), (''denom'', JStr y)])
      = ''{'' @ ''\<newline>'' @ ind @ ''    '' @ json_quote ''amount'' @ '': '' @ json_quote x @ '','' @
        ''\<newline>'' @ ind @ ''    '' @ json_quote ''denom'' @ '': '' @ json_quote y @
        ''\<newline>'' @ ind @ ''}''"
    by simp
qed

text \<open>The sample run signs the document for account number 7 and sequence 3 and posts a
  transaction with the sixty-four bytes of the sample signature.\<close>

theorem C4_metamask_json_signing_witness:
  "5 \<le> length (snd (mm_sendTransaction ref_libs sample_mm_world None None None))
   \<and> (\<exists>(a::mm_address_info) acct rest.
         drop 4 (snd (mm_sendTransaction ref_libs sample_mm_world None None None)) =
           EthRequest ''personal_sign''
             [Some (''0x'' @ toHex ref_libs (toUtf8Bytes ref_libs
                      (JSON_stringify (exactSignDoc a acct None None None) 4))),
              ethAddress a] # rest)
   \<and> Post (rpc CONFIG_mm)
        (JSON_stringify (broadcast_request ref_libs 1700000000000
           (TxRaw_encode ref_libs (mm_txRaw_of ref_libs sample_mm_address
              \<lparr>acc_accountNumber = 7, acc_sequence = 3\<rparr> None None None (replicate 64 0xAB)))) 0)
      \<in> set (snd (mm_sendTransaction ref_libs sample_mm_world None None None))
   \<and> (\<exists>sigResult sig. js_slice sigResult 2 (- 2) = concat (replicate 64 ''ab'') \<and>
         fromHex ref_libs (js_slice sigResult 2 (- 2)) = Some sig \<and> length sig = 64)"
proof -
  let ?b = "JSON_stringify (broadcast_request ref_libs 1700000000000
         (TxRaw_encode ref_libs (mm_txRaw_of ref_libs sample_mm_address
            \<lparr>acc_accountNumber = 7, acc_sequence = 3\<rparr> None None None (replicate 64 0xAB)))) 0"
  have h1: "5 \<le> length (snd (mm_sendTransaction ref_libs sample_mm_world None None None))"
    by (simp add: sample_mm_sendTransaction keygen_trace_def)
  have h2: "Post (rpc CONFIG_mm) ?b
              \<in> set (snd (mm_sendTransaction ref_libs sample_mm_world None None None))"
    by (simp add: sample_mm_sendTransaction)
  note c = C4_metamask_json_signing [of ref_libs sample_mm_world None None None "rpc CONFIG_mm" ?b]
  from c [THEN conjunct1, rule_format, OF h1]
  have p1: "\<exists>(a::mm_address_info) acct rest.
         drop 4 (snd (mm_sendTransaction ref_libs sample_mm_world None None None)) =
           EthRequest ''personal_sign''
             [Some (''0x'' @ toHex ref_libs (toUtf8Bytes ref_libs
                      (JSON_stringify (exactSignDoc a acct None None None) 4))),
              ethAddress a] # rest"
    by blast
  from c [THEN conjunct2, THEN conjunct1, rule_format, OF h2]
  obtain a :: mm_address_info and acct sigResult sig where
    e: "personal_sign sample_mm_world
           (''0x'' @ toHex ref_libs (toUtf8Bytes ref_libs
              (JSON_stringify (exactSignDoc a acct None None None) 4)))
           (ethAddress a) = Inr sigResult"
       "fromHex ref_libs (js_slice sigResult 2 (- 2)) = Some sig"
    by (elim exE conjE) (rule that)
  from e(1) have "sigResult = sample_signature" by (simp add: sample_mm_world_def)
  with e(2) have p2: "\<exists>sigResult sig. js_slice sigResult 2 (- 2) = concat (replicate 64 ''ab'') \<and>
         fromHex ref_libs (js_slice sigResult 2 (- 2)) = Some sig \<and> length sig = 64"
    by - (rule exI [of _ sample_signature], rule exI [of _ "replicate 64 0xAB"],
          auto simp: sample_raw_signature sample_fromHex [unfolded sample_raw_signature])
  from h1 p1 h2 p2 show ?thesis by blast
qed

section \<open>C5: the address depends on the public key only\<close>

text \<open>
  Claim C5.  Two runs of the address derivation on the same public key bytes give the same
  bech32 address, whatever else differs between the runs: for the Solflare and Phantom
  scripts the two runs may even be runs of different scripts against different worlds; for
  the MetaMask script the two worlds may differ in everything but the compressed key that
  is recovered.
\<close>

theorem C5_address_deterministic:
  "(getAddress s1 L w1 = (Inr a1, t1) \<and> getAddress s2 L w2 = (Inr a2, t2) \<and>
    wallet_connect w1 = Inr r1 \<and> reply_publicKey r1 = Some pk1 \<and>
    wallet_connect w2 = Inr r2 \<and> reply_publicKey r2 = Some pk2 \<and>
    toBytes pk1 = toBytes pk2 \<longrightarrow> bech32Addr a1 = bech32Addr a2)
   \<and> (mm_getAddress L m1 = (Inr b1, u1) \<and> mm_getAddress L m2 = (Inr b2, u2) \<and>
      mm_recover_key L m1 = (Inr (e1, k), u1) \<and> mm_recover_key L m2 = (Inr (e2, k), u2) \<longrightarrow>
      mm_bech32Addr b1 = mm_bech32Addr b2)"
proof (intro conjI impI)
  assume h: "getAddress s1 L w1 = (Inr a1, t1) \<and> getAddress s2 L w2 = (Inr a2, t2) \<and>
    wallet_connect w1 = Inr r1 \<and> reply_publicKey r1 = Some pk1 \<and>
    wallet_connect w2 = Inr r2 \<and> reply_publicKey r2 = Some pk2 \<and>
    toBytes pk1 = toBytes pk2"
  then have "a1 = address_of_publicKey L pk1" "a2 = address_of_publicKey L pk2"
    using getAddress_Inr [of s1 L w1 a1 t1] getAddress_Inr [of s2 L w2 a2 t2] by auto
  with h show "bech32Addr a1 = bech32Addr a2"
    by (simp add: address_of_publicKey_def Let_def)
next
  assume h: "mm_getAddress L m1 = (Inr b1, u1) \<and> mm_getAddress L m2 = (Inr b2, u2) \<and>
      mm_recover_key L m1 = (Inr (e1, k), u1) \<and> mm_recover_key L m2 = (Inr (e2, k), u2)"
  then show "mm_bech32Addr b1 = mm_bech32Addr b2"
    using mm_getAddress_Inr [of L m1 b1 u1] mm_getAddress_Inr [of L m2 b2 u2] by auto
qed

text \<open>
  Two runs that differ: the Solflare script against a node that knows the account and the
  second Phantom script against a node that does not, with the same wallet key; and the
  MetaMask script against the two nodes.
\<close>

theorem C5_address_deterministic_witness:
  "getAddress Solflare ref_libs sample_world = (Inr sample_address, [WalletConnect])
   \<and> getAddress Phantom2 ref_libs sample_world_new = (Inr sample_address, [WalletConnect])
   \<and> node_getAccount sample_world \<noteq> node_getAccount sample_world_new
   \<and> bech32Addr sample_address = bech32Addr sample_address
   \<and> mm_getAddress ref_libs sample_mm_world =
        (Inr sample_mm_address,
         keygen_trace ref_libs (Some ''0x52908400098527886E0F7030069857D2E4169EE7''))
   \<and> mm_getAddress ref_libs sample_mm_world_new =
        (Inr sample_mm_address,
         keygen_trace ref_libs (Some ''0x52908400098527886E0F7030069857D2E4169EE7''))
   \<and> mm_getAccount sample_mm_world \<noteq> mm_getAccount sample_mm_world_new"
proof -
  have w: "wallet_connect sample_world = Inr \<lparr>connected = True, reply_publicKey = Some sample_key\<rparr>"
          "wallet_connect sample_world_new = Inr \<lparr>connected = True, reply_publicKey = Some sample_key\<rparr>"
    by (simp_all add: sample_world_new_def sample_world_def)
  have d: "node_getAccount sample_world \<noteq> node_getAccount sample_world_new"
          "mm_getAccount sample_mm_world \<noteq> mm_getAccount sample_mm_world_new"
    by (auto simp: sample_world_new_def sample_world_def sample_mm_world_new_def
          sample_mm_world_def fun_eq_iff)
  from C5_address_deterministic [of Solflare ref_libs sample_world sample_address "[WalletConnect]"
      Phantom2 sample_world_new sample_address "[WalletConnect]"
      "\<lparr>connected = True, reply_publicKey = Some sample_key\<rparr>" sample_key
      "\<lparr>connected = True, reply_publicKey = Some sample_key\<rparr>" sample_key
      sample_mm_world sample_mm_address
      "keygen_trace ref_libs (Some ''0x52908400098527886E0F7030069857D2E4169EE7'')"
      sample_mm_world_new sample_mm_address
      "keygen_trace ref_libs (Some ''0x52908400098527886E0F7030069857D2E4169EE7'')"
      "Some ''0x52908400098527886E0F7030069857D2E4169EE7''" sample_compressed
      "Some ''0x52908400098527886E0F7030069857D2E4169EE7''"]
    sample_getAddress [of Solflare] sample_getAddress_new [of Phantom2] w d
    sample_mm_getAddress sample_mm_getAddress_new sample_mm_recover_key
    sample_mm_recover_key_new
  show ?thesis by simp
qed

section \<open>C6: account number and sequence are fetched for every send\<close>

text \<open>
  Claim C6.  In every run of \<^verbatim>\<open>sendTransaction\<close> of a Solflare or Phantom script that
  asks for a signature, the node was asked for the account of the derived address after
  the wallet connected and before the signature request; the sign document carries the
  account number of that reply, and the \<^verbatim>\<open>AuthInfo\<close> inside it carries the reply's
  sequence in its one \<^verbatim>\<open>SignerInfo\<close>.  In every run of the MetaMask script that gets to
  its fifth external call, that call is the signature request for the JSON document, it
  directly follows the account query, the document's \<^verbatim>\<open>account_number\<close> and
  \<^verbatim>\<open>sequence\<close> are the decimal text of the reply's numbers, and a transaction that is
  broadcast afterwards carries the same sequence in its \<^verbatim>\<open>SignerInfo\<close>.  No value
  survives from one run to the next: a run is a function of the outside world it meets.
\<close>

theorem C6_account_state_fetched_fresh:
  "(SignMessage m \<in> set (snd (sendTransaction s L w ta am me)) \<longrightarrow>
      (\<exists>(a::address_info) reply (d::SignDoc) (ai::AuthInfo) rest.
         snd (sendTransaction s L w ta am me) =
           WalletConnect # GetAccount (rpc CONFIG) (bech32Addr a) # SignMessage m # rest \<and>
         node_getAccount w (rpc CONFIG) (bech32Addr a) = Inr reply \<and>
         m = message_to_sign s L (SignDoc_encode L d) \<and>
         sd_accountNumber d = acc_accountNumber (account_of_reply reply) \<and>
         sd_authInfoBytes d = AuthInfo_encode L ai \<and>
         map sequence (signerInfos ai) = [acc_sequence (account_of_reply reply)]))
   \<and> (5 \<le> length (snd (mm_sendTransaction L mw ta am me)) \<longrightarrow>
      (\<exists>(a::mm_address_info) reply doc rest.
         snd (mm_sendTransaction L mw ta am me) =
           keygen_trace L (ethAddress a) @
           GetAccount (rpc CONFIG_mm) (mm_bech32Addr a) #
           EthRequest ''personal_sign''
             [Some (''0x'' @ toHex L (toUtf8Bytes L (JSON_stringify doc 4))), ethAddress a] # rest \<and>
         mm_getAccount mw (rpc CONFIG_mm) (mm_bech32Addr a) = Inr reply \<and>
         json_get [Key ''account_number''] doc
           = Some (JStr (decimal (acc_accountNumber (account_of_reply reply)))) \<and>
         json_get [Key ''sequence''] doc
           = Some (JStr (decimal (acc_sequence (account_of_reply reply)))) \<and>
         (\<forall>u body. Post u body \<in> set rest \<longrightarrow>
            (\<exists>bb (ai::AuthInfo) sig.
               body = JSON_stringify (broadcast_request L (mm_now mw)
                        (TxRaw_encode L \<lparr>bodyBytes = bb, authInfoBytes = AuthInfo_encode L ai,
                                          signatures = [sig]\<rparr>)) 0 \<and>
               map sequence (signerInfos ai) = [acc_sequence (account_of_reply reply)]))))"
proof (intro conjI impI)
  assume "SignMessage m \<in> set (snd (sendTransaction s L w ta am me))"
  from sendTransaction_SignMessage [OF this] obtain a reply rest where
    h: "node_getAccount w (rpc CONFIG) (bech32Addr a) = Inr reply"
       "m = message_to_sign s L
                 (SignDoc_encode L (signDoc_of s L a (account_of_reply reply) ta am me))"
       "snd (sendTransaction s L w ta am me) =
             WalletConnect # GetAccount (rpc CONFIG) (bech32Addr a) # SignMessage m # rest"
    by blast
  let ?d = "signDoc_of s L a (account_of_reply reply) ta am me"
  let ?ai = "authInfo_of L a (acc_sequence (account_of_reply reply))"
  have "sd_accountNumber ?d = acc_accountNumber (account_of_reply reply)"
       "sd_authInfoBytes ?d = AuthInfo_encode L ?ai"
       "map sequence (signerInfos ?ai) = [acc_sequence (account_of_reply reply)]"
    by (simp_all add: signDoc_of_def authInfo_of_def)
  with h show "\<exists>(a::address_info) reply (d::SignDoc) (ai::AuthInfo) rest.
         snd (sendTransaction s L w ta am me) =
           WalletConnect # GetAccount (rpc CONFIG) (bech32Addr a) # SignMessage m # rest \<and>
         node_getAccount w (rpc CONFIG) (bech32Addr a) = Inr reply \<and>
         m = message_to_sign s L (SignDoc_encode L d) \<and>
         sd_accountNumber d = acc_accountNumber (account_of_reply reply) \<and>
         sd_authInfoBytes d = AuthInfo_encode L ai \<and>
         map sequence (signerInfos ai) = [acc_sequence (account_of_reply reply)]"
    by - (rule exI [of _ a], rule exI [of _ reply], rule exI [of _ "?d"], rule exI [of _ "?ai"],
          rule exI [of _ rest], simp)
next
  assume "5 \<le> length (snd (mm_sendTransaction L mw ta am me))"
  from mm_sendTransaction_signed [OF this] obtain a reply rest where
    g: "mm_getAddress L mw = (Inr a, keygen_trace L (ethAddress a))" and
    h: "mm_getAccount mw (rpc CONFIG_mm) (mm_bech32Addr a) = Inr reply"
       "snd (mm_sendTransaction L mw ta am me) =
             keygen_trace L (ethAddress a) @
             GetAccount (rpc CONFIG_mm) (mm_bech32Addr a) #
             EthRequest ''personal_sign''
               [Some (''0x'' @ toHex L (mm_messageBytes L a (account_of_reply reply) ta am me)),
                ethAddress a] # rest"
    by blast
  let ?acct = "account_of_reply reply"
  let ?doc = "exactSignDoc a ?acct ta am me"
  have doc: "json_get [Key ''account_number''] ?doc = Some (JStr (decimal (acc_accountNumber ?acct)))"
            "json_get [Key ''sequence''] ?doc = Some (JStr (decimal (acc_sequence ?acct)))"
    by (simp_all add: exactSignDoc_def)
  have post: "\<exists>bb (ai::AuthInfo) sig.
               body = JSON_stringify (broadcast_request L (mm_now mw)
                        (TxRaw_encode L \<lparr>bodyBytes = bb, authInfoBytes = AuthInfo_encode L ai,
                                          signatures = [sig]\<rparr>)) 0 \<and>
               map sequence (signerInfos ai) = [acc_sequence ?acct]"
    if "Post u body \<in> set rest" for u body
  proof -
    from that h(2) have "Post u body \<in> set (snd (mm_sendTransaction L mw ta am me))" by simp
    from mm_sendTransaction_Post [OF this] obtain a' reply' sig where
      p: "mm_getAddress L mw = (Inr a', keygen_trace L (ethAddress a'))"
         "mm_getAccount mw (rpc CONFIG_mm) (mm_bech32Addr a') = Inr reply'"
         "body = JSON_stringify (broadcast_request L (mm_now mw)
                    (TxRaw_encode L (mm_txRaw_of L a' (account_of_reply reply') ta am me sig))) 0"
      by blast
    from p(1) g have "a' = a" by simp
    with p(2) h(1) have "reply' = reply" by simp
    with p(3) \<open>a' = a\<close> show ?thesis
      unfolding mm_txRaw_of_def
      by - (rule exI [of _ "TxBody_encode L (mm_txBody_of L a' ta am me)"],
            rule exI [of _ "mm_authInfo_of a' (acc_sequence (account_of_reply reply))"],
            rule exI [of _ sig], simp add: mm_authInfo_of_def)
  qed
  from h doc post show "\<exists>(a::mm_address_info) reply doc rest.
         snd (mm_sendTransaction L mw ta am me) =
           keygen_trace L (ethAddress a) @
           GetAccount (rpc CONFIG_mm) (mm_bech32Addr a) #
           EthRequest ''personal_sign''
             [Some (''0x'' @ toHex L (toUtf8Bytes L (JSON_stringify doc 4))), ethAddress a] # rest \<and>
         mm_getAccount mw (rpc CONFIG_mm) (mm_bech32Addr a) = Inr reply \<and>
         json_get [Key ''account_number''] doc
           = Some (JStr (decimal (acc_accountNumber (account_of_reply reply)))) \<and>
         json_get [Key ''sequence''] doc
           = Some (JStr (decimal (acc_sequence (account_of_reply reply)))) \<and>
         (\<forall>u body. Post u body \<in> set rest \<longrightarrow>
            (\<exists>bb (ai::AuthInfo) sig.
               body = JSON_stringify (broadcast_request L (mm_now mw)
                        (TxRaw_encode L \<lparr>bodyBytes = bb, authInfoBytes = AuthInfo_encode L ai,
                                          signatures = [sig]\<rparr>)) 0 \<and>
               map sequence (signerInfos ai) = [acc_sequence (account_of_reply reply)]))"
    unfolding mm_messageBytes_def
    by - (rule exI [of _ a], rule exI [of _ reply], rule exI [of _ "?doc"], rule exI [of _ rest],
          simp)
qed

text \<open>The sample node reports account number 7 and sequence 3, and these are the numbers
  in what the sample runs sign.\<close>

theorem C6_account_state_fetched_fresh_witness:
  "SignMessage (message_to_sign Solflare ref_libs (SignDoc_encode ref_libs
       (signDoc_of Solflare ref_libs sample_address
          \<lparr>acc_accountNumber = 7, acc_sequence = 3\<rparr> None None None)))
     \<in> set (snd (sendTransaction Solflare ref_libs sample_world None None None))
   \<and> (\<exists>(d::SignDoc) (ai::AuthInfo).
         sd_accountNumber d = 7 \<and> sd_authInfoBytes d = AuthInfo_encode ref_libs ai \<and>
         map sequence (signerInfos ai) = [3] \<and>
         SignMessage (message_to_sign Solflare ref_libs (SignDoc_encode ref_libs d))
           \<in> set (snd (sendTransaction Solflare ref_libs sample_world None None None)))
   \<and> 5 \<le> length (snd (mm_sendTransaction ref_libs sample_mm_world None None None))
   \<and> (\<exists>doc. json_get [Key ''account_number''] doc = Some (JStr ''7'') \<and>
         json_get [Key ''sequence''] doc = Some (JStr ''3'') \<and>
         EthRequest ''personal_sign''
           [Some (''0x'' @ toHex ref_libs (toUtf8Bytes ref_libs (JSON_stringify doc 4))),
            Some ''0x52908400098527886E0F7030069857D2E4169EE7'']
           \<in> set (snd (mm_sendTransaction ref_libs sample_mm_world None None None)))"
proof -
  let ?m = "message_to_sign Solflare ref_libs (SignDoc_encode ref_libs
       (signDoc_of Solflare ref_libs sample_address
          \<lparr>acc_accountNumber = 7, acc_sequence = 3\<rparr> None None None))"
  have h1: "SignMessage ?m \<in> set (snd (sendTransaction Solflare ref_libs sample_world None None None))"
    by (simp add: sample_sendTransaction)
  have h2: "5 \<le> length (snd (mm_sendTransaction ref_libs sample_mm_world None None None))"
    by (simp add: sample_mm_sendTransaction keygen_trace_def)
  have n: "node_getAccount sample_world u x = Inr r \<Longrightarrow>
             account_of_reply r = \<lparr>acc_accountNumber = 7, acc_sequence = 3\<rparr>"
          "mm_getAccount sample_mm_world u x = Inr r \<Longrightarrow>
             account_of_reply r = \<lparr>acc_accountNumber = 7, acc_sequence = 3\<rparr>" for u x r
    by (auto simp: sample_world_def sample_mm_world_def account_of_reply_def)
  note c = C6_account_state_fetched_fresh [of ?m Solflare ref_libs sample_world None None None
      sample_mm_world]
  from c [THEN conjunct1, rule_format, OF h1]
  obtain a :: address_info and reply and d :: SignDoc and ai :: AuthInfo where
    e: "node_getAccount sample_world (rpc CONFIG) (bech32Addr a) = Inr reply"
       "?m = message_to_sign Solflare ref_libs (SignDoc_encode ref_libs d)"
       "sd_accountNumber d = acc_accountNumber (account_of_reply reply)"
       "sd_authInfoBytes d = AuthInfo_encode ref_libs ai"
       "map sequence (signerInfos ai) = [acc_sequence (account_of_reply reply)]"
    by (elim exE conjE) (rule that)
  from e n(1) [OF e(1)] h1
  have p1: "\<exists>(d::SignDoc) (ai::AuthInfo).
         sd_accountNumber d = 7 \<and> sd_authInfoBytes d = AuthInfo_encode ref_libs ai \<and>
         map sequence (signerInfos ai) = [3] \<and>
         SignMessage (message_to_sign Solflare ref_libs (SignDoc_encode ref_libs d))
           \<in> set (snd (sendTransaction Solflare ref_libs sample_world None None None))"
    by - (rule exI [of _ d], rule exI [of _ ai], simp)
  from c [THEN conjunct2, rule_format, OF h2]
  obtain b :: mm_address_info and reply' doc rest where
    f: "snd (mm_sendTransaction ref_libs sample_mm_world None None None) =
           keygen_trace ref_libs (ethAddress b) @
           GetAccount (rpc CONFIG_mm) (mm_bech32Addr b) #
           EthRequest ''personal_sign''
             [Some (''0x'' @ toHex ref_libs (toUtf8Bytes ref_libs (JSON_stringify doc 4))),
              ethAddress b] # rest"
       "mm_getAccount sample_mm_world (rpc CONFIG_mm) (mm_bech32Addr b) = Inr reply'"
       "json_get [Key ''account_number''] doc
           = Some (JStr (decimal (acc_accountNumber (account_of_reply reply'))))"
       "json_get [Key ''sequence''] doc
           = Some (JStr (decimal (acc_sequence (account_of_reply reply'))))"
    by (elim exE conjE) (rule that)
  from f(1) have eth: "ethAddress b = Some ''0x52908400098527886E0F7030069857D2E4169EE7''"
    by (simp add: sample_mm_sendTransaction keygen_trace_def)
  have "EthRequest ''personal_sign''
           [Some (''0x'' @ toHex ref_libs (toUtf8Bytes ref_libs (JSON_stringify doc 4))),
            Some ''0x52908400098527886E0F7030069857D2E4169EE7'']
           \<in> set (snd (mm_sendTransaction ref_libs sample_mm_world None None None))"
    unfolding f(1) eth by simp
  with f(3,4) n(2) [OF f(2)]
  have p2: "\<exists>doc. json_get [Key ''account_number''] doc = Some (JStr ''7'') \<and>
         json_get [Key ''sequence''] doc = Some (JStr ''3'') \<and>
         EthRequest ''personal_sign''
           [Some (''0x'' @ toHex ref_libs (toUtf8Bytes ref_libs (JSON_stringify doc 4))),
            Some ''0x52908400098527886E0F7030069857D2E4169EE7'']
           \<in> set (snd (mm_sendTransaction ref_libs sample_mm_world None None None))"
    by - (rule exI [of _ doc], simp add: decimal_digit digit_char_def)
  from h1 p1 h2 p2 show ?thesis by blast
qed

section \<open>C7: the JSON-RPC envelope\<close>



section \<open>C8: an account the node does not know\<close>

text \<open>
  Claim C8.  When the node reports no account for the derived address,
  \<^verbatim>\<open>fetchAccountInfo\<close> returns account number 0 and sequence 0 and does not throw, and
  \<^verbatim>\<open>sendTransaction\<close> goes on.  Its third call asks the wallet to sign the
  \<^verbatim>\<open>SignDoc\<close> with account number 0 whose \<^verbatim>\<open>AuthInfo\<close> carries sequence 0 (the second
  Phantom script: those bytes re-encoded), and when the wallet signs, the fourth and last
  call posts the \<^verbatim>\<open>TxRaw\<close> made of that body, that \<^verbatim>\<open>AuthInfo\<close> with sequence 0 and the
  signature.  The MetaMask script asks for a signature over the document that carries the
  zeros as the text \<^verbatim>\<open>"0"\<close>, and when the wallet signs and the signature text is
  hexadecimal it posts the \<^verbatim>\<open>TxRaw\<close> whose \<^verbatim>\<open>AuthInfo\<close> carries sequence 0.
\<close>

theorem C8_unknown_account_proceeds:
  "(getAddress s L w = (Inr a, t) \<and> node_getAccount w (rpc CONFIG) (bech32Addr a) = Inr None \<longrightarrow>
      fetchAccountInfo w (bech32Addr a) =
        (Inr \<lparr>acc_accountNumber = 0, acc_sequence = 0\<rparr>, [GetAccount (rpc CONFIG) (bech32Addr a)]) \<and>
      (let body = TxBody_encode L
             \<lparr>messages = [\<lparr>typeUrl = ''/cosmos.bank.v1beta1.MsgSend'',
                            any_value = MsgSend_encode L
                              \<lparr>fromAddress = bech32Addr a,
                               toAddress = js_or ta (bech32Addr a),
                               send_amount = [\<lparr>denom = ''unls'', amount = js_or am ''1000000''\<rparr>]\<rparr>\<rparr>],
              memo = js_or me (if s = Solflare then ''solflare-ed25519-test''
                               else ''phantom-ed25519-test'')\<rparr>;
           auth = AuthInfo_encode L
             \<lparr>signerInfos = [\<lparr>publicKey = \<lparr>typeUrl = pubkeyAny_typeUrl a,
                                              any_value = fromBase64 L (pubkeyAny_value a)\<rparr>,
                               modeInfo = SIGN_MODE_DIRECT,
                               sequence = 0\<rparr>],
              fee = \<lparr>fee_amount = [\<lparr>denom = ''unls'', amount = ''500''\<rparr>], gasLimit = 200000\<rparr>\<rparr>;
           signBytes = SignDoc_encode L
             \<lparr>sd_bodyBytes = body, sd_authInfoBytes = auth, sd_chainId = ''pirin-1'',
              sd_accountNumber = 0\<rparr>;
           m = (if s = Phantom2 then utf8_reencode L signBytes else signBytes)
       in take 3 (snd (sendTransaction s L w ta am me)) =
            [WalletConnect, GetAccount (rpc CONFIG) (bech32Addr a), SignMessage m] \<and>
          (\<forall>sig. wallet_signMessage w m = Inr sig \<longrightarrow>
             snd (sendTransaction s L w ta am me) =
               [WalletConnect, GetAccount (rpc CONFIG) (bech32Addr a), SignMessage m,
                Post ''https://rpc.nolus.network''
                  (JSON_stringify
                     (JObj [(''jsonrpc'', JStr ''2.0''), (''id'', JNum (now w)),
                            (''method'', JStr ''broadcast_tx_sync''),
                            (''params'', JObj [(''tx'', JStr (toBase64 L (TxRaw_encode L
                               \<lparr>bodyBytes = body, authInfoBytes = auth,
                                signatures = [sig]\<rparr>)))])]) 0)])))
   \<and> (mm_getAddress L mw = (Inr ma, mt) \<and>
      mm_getAccount mw (rpc CONFIG_mm) (mm_bech32Addr ma) = Inr None \<longrightarrow>
      mm_fetchAccountInfo mw (mm_bech32Addr ma) =
        (Inr \<lparr>acc_accountNumber = 0, acc_sequence = 0\<rparr>,
         [GetAccount (rpc CONFIG_mm) (mm_bech32Addr ma)]) \<and>
      (let doc = exactSignDoc ma \<lparr>acc_accountNumber = 0, acc_sequence = 0\<rparr> ta am me;
           msg = ''0x'' @ toHex L (toUtf8Bytes L (JSON_stringify doc 4));
           body = TxBody_encode L
             \<lparr>messages = [\<lparr>typeUrl = ''/cosmos.bank.v1beta1.MsgSend'',
                            any_value = MsgSend_encode L
                              \<lparr>fromAddress = mm_bech32Addr ma,
                               toAddress = js_or ta (mm_bech32Addr ma),
                               send_amount = [\<lparr>denom = ''untrn'', amount = js_or am ''1000000''\<rparr>]\<rparr>\<rparr>],
              memo = js_or me ''Neutron Network transaction''\<rparr>;
           auth = AuthInfo_encode L
             \<lparr>signerInfos = [\<lparr>publicKey = pubkeyAny ma, modeInfo = SIGN_MODE_EIP_191,
                               sequence = 0\<rparr>],
              fee = \<lparr>fee_amount = [\<lparr>denom = ''untrn'', amount = ''5000''\<rparr>], gasLimit = 200000\<rparr>\<rparr>
       in json_get [Key ''account_number''] doc = Some (JStr ''0'') \<and>
          json_get [Key ''sequence''] doc = Some (JStr ''0'') \<and>
          take 5 (snd (mm_sendTransaction L mw ta am me)) =
            mt @ [GetAccount (rpc CONFIG_mm) (mm_bech32Addr ma),
                  EthRequest ''personal_sign'' [Some msg, ethAddress ma]] \<and>
          (\<forall>sigResult sig.
             personal_sign mw msg (ethAddress ma) = Inr sigResult \<and>
             fromHex L (js_slice sigResult 2 (- 2)) = Some sig \<longrightarrow>
             snd (mm_sendTransaction L mw ta am me) =
               mt @ [GetAccount (rpc CONFIG_mm) (mm_bech32Addr ma),
                     EthRequest ''personal_sign'' [Some msg, ethAddress ma],
                     Post ''https://pion-rpc.nolus.network''
                       (JSON_stringify
                          (JObj [(''jsonrpc'', JStr ''2.0''), (''id'', JNum (mm_now mw)),
                                 (''method'', JStr ''broadcast_tx_sync''),
                                 (''params'', JObj [(''tx'', JStr (toBase64 L (TxRaw_encode L
                                    \<lparr>bodyBytes = body, authInfoBytes = auth,
                                     signatures = [sig]\<rparr>)))])]) 0)])))"
proof (intro conjI impI)
  assume h: "getAddress s L w = (Inr a, t) \<and> node_getAccount w (rpc CONFIG) (bech32Addr a) = Inr None"
  then show "fetchAccountInfo w (bech32Addr a) =
        (Inr \<lparr>acc_accountNumber = 0, acc_sequence = 0\<rparr>, [GetAccount (rpc CONFIG) (bech32Addr a)])"
    by (simp add: fetchAccountInfo_run account_of_reply_None)
  from h have h1: "getAddress s L w = (Inr a, t)"
    and h2: "node_getAccount w (rpc CONFIG) (bech32Addr a) = Inr None" by simp_all
  note run = sendTransaction_new_account [OF h1 h2, of ta am me,
      unfolded signDoc_of_fields message_to_sign_cases txRaw_of_def broadcast_request_def]
  show "let body = TxBody_encode L
             \<lparr>messages = [\<lparr>typeUrl = ''/cosmos.bank.v1beta1.MsgSend'',
                            any_value = MsgSend_encode L
                              \<lparr>fromAddress = bech32Addr a,
                               toAddress = js_or ta (bech32Addr a),
                               send_amount = [\<lparr>denom = ''unls'', amount = js_or am ''1000000''\<rparr>]\<rparr>\<rparr>],
              memo = js_or me (if s = Solflare then ''solflare-ed25519-test''
                               else ''phantom-ed25519-test'')\<rparr>;
           auth = AuthInfo_encode L
             \<lparr>signerInfos = [\<lparr>publicKey = \<lparr>typeUrl = pubkeyAny_typeUrl a,
                                              any_value = fromBase64 L (pubkeyAny_value a)\<rparr>,
                               modeInfo = SIGN_MODE_DIRECT,
                               sequence = 0\<rparr>],
              fee = \<lparr>fee_amount = [\<lparr>denom = ''unls'', amount = ''500''\<rparr>], gasLimit = 200000\<rparr>\<rparr>;
           signBytes = SignDoc_encode L
             \<lparr>sd_bodyBytes = body, sd_authInfoBytes = auth, sd_chainId = ''pirin-1'',
              sd_accountNumber = 0\<rparr>;
           m = (if s = Phantom2 then utf8_reencode L signBytes else signBytes)
       in take 3 (snd (sendTransaction s L w ta am me)) =
            [WalletConnect, GetAccount (rpc CONFIG) (bech32Addr a), SignMessage m] \<and>
          (\<forall>sig. wallet_signMessage w m = Inr sig \<longrightarrow>
             snd (sendTransaction s L w ta am me) =
               [WalletConnect, GetAccount (rpc CONFIG) (bech32Addr a), SignMessage m,
                Post ''https://rpc.nolus.network''
                  (JSON_stringify
                     (JObj [(''jsonrpc'', JStr ''2.0''), (''id'', JNum (now w)),
                            (''method'', JStr ''broadcast_tx_sync''),
                            (''params'', JObj [(''tx'', JStr (toBase64 L (TxRaw_encode L
                               \<lparr>bodyBytes = body, authInfoBytes = auth,
                                signatures = [sig]\<rparr>)))])]) 0)])"
    unfolding Let_def
    using run by (cases s) (simp_all add: CONFIG_def)
next
  assume h: "mm_getAddress L mw = (Inr ma, mt) \<and>
      mm_getAccount mw (rpc CONFIG_mm) (mm_bech32Addr ma) = Inr None"
  then show "mm_fetchAccountInfo mw (mm_bech32Addr ma) =
        (Inr \<lparr>acc_accountNumber = 0, acc_sequence = 0\<rparr>,
         [GetAccount (rpc CONFIG_mm) (mm_bech32Addr ma)])"
    by (simp add: mm_fetchAccountInfo_run account_of_reply_None)
  from h have h1: "mm_getAddress L mw = (Inr ma, mt)"
    and h2: "mm_getAccount mw (rpc CONFIG_mm) (mm_bech32Addr ma) = Inr None" by simp_all
  note run = mm_sendTransaction_new_account [OF h1 h2, of ta am me,
      unfolded mm_txRaw_of_fields mm_messageBytes_def broadcast_request_def]
  have z: "json_get [Key ''account_number'']
             (exactSignDoc ma \<lparr>acc_accountNumber = 0, acc_sequence = 0\<rparr> ta am me) = Some (JStr ''0'')"
          "json_get [Key ''sequence'']
             (exactSignDoc ma \<lparr>acc_accountNumber = 0, acc_sequence = 0\<rparr> ta am me) = Some (JStr ''0'')"
    by (simp_all add: exactSignDoc_def decimal_0)
  show "let doc = exactSignDoc ma \<lparr>acc_accountNumber = 0, acc_sequence = 0\<rparr> ta am me;
           msg = ''0x'' @ toHex L (toUtf8Bytes L (JSON_stringify doc 4));
           body = TxBody_encode L
             \<lparr>messages = [\<lparr>typeUrl = ''/cosmos.bank.v1beta1.MsgSend'',
                            any_value = MsgSend_encode L
                              \<lparr>fromAddress = mm_bech32Addr ma,
                               toAddress = js_or ta (mm_bech32Addr ma),
                               send_amount = [\<lparr>denom = ''untrn'', amount = js_or am ''1000000''\<rparr>]\<rparr>\<rparr>],
              memo = js_or me ''Neutron Network transaction''\<rparr>;
           auth = AuthInfo_encode L
             \<lparr>signerInfos = [\<lparr>publicKey = pubkeyAny ma, modeInfo = SIGN_MODE_EIP_191,
                               sequence = 0\<rparr>],
              fee = \<lparr>fee_amount = [\<lparr>denom = ''untrn'', amount = ''5000''\<rparr>], gasLimit = 200000\<rparr>\<rparr>
       in json_get [Key ''account_number''] doc = Some (JStr ''0'') \<and>
          json_get [Key ''sequence''] doc = Some (JStr ''0'') \<and>
          take 5 (snd (mm_sendTransaction L mw ta am me)) =
            mt @ [GetAccount (rpc CONFIG_mm) (mm_bech32Addr ma),
                  EthRequest ''personal_sign'' [Some msg, ethAddress ma]] \<and>
          (\<forall>sigResult sig.
             personal_sign mw msg (ethAddress ma) = Inr sigResult \<and>
             fromHex L (js_slice sigResult 2 (- 2)) = Some sig \<longrightarrow>
             snd (mm_sendTransaction L mw ta am me) =
               mt @ [GetAccount (rpc CONFIG_mm) (mm_bech32Addr ma),
                     EthRequest ''personal_sign'' [Some msg, ethAddress ma],
                     Post ''https://pion-rpc.nolus.network''
                       (JSON_stringify
                          (JObj [(''jsonrpc'', JStr ''2.0''), (''id'', JNum (mm_now mw)),
                                 (''method'', JStr ''broadcast_tx_sync''),
                                 (''params'', JObj [(''tx'', JStr (toBase64 L (TxRaw_encode L
                                    \<lparr>bodyBytes = body, authInfoBytes = auth,
                                     signatures = [sig]\<rparr>)))])]) 0)])"
    unfolding Let_def
    using run z by (simp add: CONFIG_mm_def)
qed

text \<open>The sample nodes that do not know the account: both runs sign and post.\<close>

theorem C8_unknown_account_proceeds_witness:
  "getAddress Solflare ref_libs sample_world_new = (Inr sample_address, [WalletConnect])
   \<and> node_getAccount sample_world_new (rpc CONFIG) (bech32Addr sample_address) = Inr None
   \<and> Post ''https://rpc.nolus.network''
        (JSON_stringify
           (JObj [(''jsonrpc'', JStr ''2.0''), (''id'', JNum 1700000000000),
                  (''method'', JStr ''broadcast_tx_sync''),
                  (''params'', JObj [(''tx'', JStr (toBase64 ref_libs (TxRaw_encode ref_libs
                     \<lparr>bodyBytes = TxBody_encode ref_libs
                        \<lparr>messages = [\<lparr>typeUrl = ''/cosmos.bank.v1beta1.MsgSend'',
                                       any_value = MsgSend_encode ref_libs
                                         \<lparr>fromAddress = bech32Addr sample_address,
                                          toAddress = bech32Addr sample_address,
                                          send_amount = [\<lparr>denom = ''unls'', amount = ''1000000''\<rparr>]\<rparr>\<rparr>],
                         memo = ''solflare-ed25519-test''\<rparr>,
                      authInfoBytes = AuthInfo_encode ref_libs
                        \<lparr>signerInfos = [\<lparr>publicKey =
                                            \<lparr>typeUrl = pubkeyAny_typeUrl sample_address,
                                             any_value = fromBase64 ref_libs
                                               (pubkeyAny_value sample_address)\<rparr>,
                                          modeInfo = SIGN_MODE_DIRECT,
                                          sequence = 0\<rparr>],
                         fee = \<lparr>fee_amount = [\<lparr>denom = ''unls'', amount = ''500''\<rparr>],
                                gasLimit = 200000\<rparr>\<rparr>,
                      signatures = [replicate 64 0x5A]\<rparr>)))])]) 0)
      \<in> set (snd (sendTransaction Solflare ref_libs sample_world_new None None None))
   \<and> mm_getAddress ref_libs sample_mm_world_new =
        (Inr sample_mm_address,
         keygen_trace ref_libs (Some ''0x52908400098527886E0F7030069857D2E4169EE7''))
   \<and> mm_getAccount sample_mm_world_new (rpc CONFIG_mm) (mm_bech32Addr sample_mm_address) = Inr None
   \<and> Post ''https://pion-rpc.nolus.network''
        (JSON_stringify
           (JObj [(''jsonrpc'', JStr ''2.0''), (''id'', JNum 1700000000000),
                  (''method'', JStr ''broadcast_tx_sync''),
                  (''params'', JObj [(''tx'', JStr (toBase64 ref_libs (TxRaw_encode ref_libs
                     \<lparr>bodyBytes = TxBody_encode ref_libs
                        \<lparr>messages = [\<lparr>typeUrl = ''/cosmos.bank.v1beta1.MsgSend'',
                                       any_value = MsgSend_encode ref_libs
                                         \<lparr>fromAddress = mm_bech32Addr sample_mm_address,
                                          toAddress = mm_bech32Addr sample_mm_address,
                                          send_amount = [\<lparr>denom = ''untrn'', amount = ''1000000''\<rparr>]\<rparr>\<rparr>],
                         memo = ''Neutron Network transaction''\<rparr>,
                      authInfoBytes = AuthInfo_encode ref_libs
                        \<lparr>signerInfos = [\<lparr>publicKey = pubkeyAny sample_mm_address,
                                          modeInfo = SIGN_MODE_EIP_191,
                                          sequence = 0\<rparr>],
                         fee = \<lparr>fee_amount = [\<lparr>denom = ''untrn'', amount = ''5000''\<rparr>],
                                gasLimit = 200000\<rparr>\<rparr>,
                      signatures = [replicate 64 0xAB]\<rparr>)))])]) 0)
      \<in> set (snd (mm_sendTransaction ref_libs sample_mm_world_new None None None))"
proof -
  have h1: "getAddress Solflare ref_libs sample_world_new = (Inr sample_address, [WalletConnect]) \<and>
            node_getAccount sample_world_new (rpc CONFIG) (bech32Addr sample_address) = Inr None"
    by (simp add: sample_getAddress_new) (simp add: sample_world_new_def)
  have h2: "mm_getAddress ref_libs sample_mm_world_new =
              (Inr sample_mm_address,
               keygen_trace ref_libs (Some ''0x52908400098527886E0F7030069857D2E4169EE7'')) \<and>
            mm_getAccount sample_mm_world_new (rpc CONFIG_mm) (mm_bech32Addr sample_mm_address) = Inr None"
    by (simp add: sample_mm_getAddress_new) (simp add: sample_mm_world_new_def)
  have s1: "wallet_signMessage sample_world_new m = Inr (replicate 64 0x5A)" for m
    by (simp add: sample_world_new_def sample_world_def)
  have s2: "personal_sign sample_mm_world_new msg eth = Inr sample_signature" for msg eth
    by (simp add: sample_mm_world_new_def sample_mm_world_def)
  have n1: "now sample_world_new = 1700000000000"
    by (simp add: sample_world_new_def sample_world_def)
  have n2: "mm_now sample_mm_world_new = 1700000000000"
    by (simp add: sample_mm_world_new_def sample_mm_world_def)
  note c = C8_unknown_account_proceeds [of Solflare ref_libs sample_world_new sample_address
      "[WalletConnect]" None None None sample_mm_world_new sample_mm_address
      "keygen_trace ref_libs (Some ''0x52908400098527886E0F7030069857D2E4169EE7'')"]
  from c [THEN conjunct1, rule_format, OF h1]
  have p1: "Post ''https://rpc.nolus.network''
        (JSON_stringify
           (JObj [(''jsonrpc'', JStr ''2.0''), (''id'', JNum 1700000000000),
                  (''method'', JStr ''broadcast_tx_sync''),
                  (''params'', JObj [(''tx'', JStr (toBase64 ref_libs (TxRaw_encode ref_libs
                     \<lparr>bodyBytes = TxBody_encode ref_libs
                        \<lparr>messages = [\<lparr>typeUrl = ''/cosmos.bank.v1beta1.MsgSend'',
                                       any_value = MsgSend_encode ref_libs
                                         \<lparr>fromAddress = bech32Addr sample_address,
                                          toAddress = bech32Addr sample_address,
                                          send_amount = [\<lparr>denom = ''unls'', amount = ''1000000''\<rparr>]\<rparr>\<rparr>],
                         memo = ''solflare-ed25519-test''\<rparr>,
                      authInfoBytes = AuthInfo_encode ref_libs
                        \<lparr>signerInfos = [\<lparr>publicKey =
                                            \<lparr>typeUrl = pubkeyAny_typeUrl sample_address,
                                             any_value = fromBase64 ref_libs
                                               (pubkeyAny_value sample_address)\<rparr>,
                                          modeInfo = SIGN_MODE_DIRECT,
                                          sequence = 0\<rparr>],
                         fee = \<lparr>fee_amount = [\<lparr>denom = ''unls'', amount = ''500''\<rparr>],
                                gasLimit = 200000\<rparr>\<rparr>,
                      signatures = [replicate 64 0x5A]\<rparr>)))])]) 0)
      \<in> set (snd (sendTransaction Solflare ref_libs sample_world_new None None None))"
    by (simp add: Let_def s1 n1 js_or_def)
  from c [THEN conjunct2, rule_format, OF h2] sample_fromHex
  have p2: "Post ''https://pion-rpc.nolus.network''
        (JSON_stringify
           (JObj [(''jsonrpc'', JStr ''2.0''), (''id'', JNum 1700000000000),
                  (''method'', JStr ''broadcast_tx_sync''),
                  (''params'', JObj [(''tx'', JStr (toBase64 ref_libs (TxRaw_encode ref_libs
                     \<lparr>bodyBytes = TxBody_encode ref_libs
                        \<lparr>messages = [\<lparr>typeUrl = ''/cosmos.bank.v1beta1.MsgSend'',
                                       any_value = MsgSend_encode ref_libs
                                         \<lparr>fromAddress = mm_bech32Addr sample_mm_address,
                                          toAddress = mm_bech32Addr sample_mm_address,
                                          send_amount = [\<lparr>denom = ''untrn'', amount = ''1000000''\<rparr>]\<rparr>\<rparr>],
                         memo = ''Neutron Network transaction''\<rparr>,
                      authInfoBytes = AuthInfo_encode ref_libs
                        \<lparr>signerInfos = [\<lparr>publicKey = pubkeyAny sample_mm_address,
                                          modeInfo = SIGN_MODE_EIP_191,
                                          sequence = 0\<rparr>],
                         fee = \<lparr>fee_amount = [\<lparr>denom = ''untrn'', amount = ''5000''\<rparr>],
                                gasLimit = 200000\<rparr>\<rparr>,
                      signatures = [replicate 64 0xAB]\<rparr>)))])]) 0)
      \<in> set (snd (mm_sendTransaction ref_libs sample_mm_world_new None None None))"
    by (simp add: Let_def s2 n2 js_or_def)
  from h1 h2 p1 p2 show ?thesis by (intro conjI) (simp_all only: simp_thms)
qed

section \<open>C9: default recipient, default amount, fixed fee\<close>

text \<open>
  Claim C9.  In every run of \<^verbatim>\<open>sendTransaction\<close> of a Solflare or Phantom script that asks
  for a signature, the signed document holds one \<^verbatim>\<open>MsgSend\<close> from the derived address;
  with \<^verbatim>\<open>toAddress\<close> omitted its recipient is that same address, with the amount omitted
  it sends \<^verbatim>\<open>"1000000"\<close>, and whatever the arguments are the fee is \<^verbatim>\<open>"500"\<close> of the
  chain's denomination with gas limit 200000.  In the MetaMask script the same holds of the
  JSON document that is signed (in every run that gets to the signature request) and of
  the transaction that is posted (in every run that posts), with fee \<^verbatim>\<open>"5000"\<close> and gas
  200000.
\<close>

theorem C9_defaults_and_fixed_fee:
  "(SignMessage m \<in> set (snd (sendTransaction s L w ta am me)) \<longrightarrow>
      (\<exists>(a::address_info) (ms::MsgSend) (ai::AuthInfo) mem acc.
         fst (getAddress s L w) = Inr a \<and>
         m = message_to_sign s L (SignDoc_encode L
               \<lparr>sd_bodyBytes = TxBody_encode L
                   \<lparr>messages = [\<lparr>typeUrl = ''/cosmos.bank.v1beta1.MsgSend'',
                                  any_value = MsgSend_encode L ms\<rparr>],
                    memo = mem\<rparr>,
                sd_authInfoBytes = AuthInfo_encode L ai,
                sd_chainId = ''pirin-1'', sd_accountNumber = acc\<rparr>) \<and>
         fromAddress ms = bech32Addr a \<and>
         (ta = None \<longrightarrow> toAddress ms = bech32Addr a) \<and>
         (am = None \<longrightarrow> send_amount ms = [\<lparr>denom = ''unls'', amount = ''1000000''\<rparr>]) \<and>
         fee ai = \<lparr>fee_amount = [\<lparr>denom = ''unls'', amount = ''500''\<rparr>], gasLimit = 200000\<rparr>))
   \<and> (5 \<le> length (snd (mm_sendTransaction L mw ta am me)) \<longrightarrow>
      (\<exists>(a::mm_address_info) doc rest.
         fst (mm_getAddress L mw) = Inr a \<and>
         drop 4 (snd (mm_sendTransaction L mw ta am me)) =
           EthRequest ''personal_sign''
             [Some (''0x'' @ toHex L (toUtf8Bytes L (JSON_stringify doc 4))), ethAddress a] # rest \<and>
         json_get [Key ''msgs'', Idx 0, Key ''value'', Key ''from_address''] doc
           = Some (JStr (mm_bech32Addr a)) \<and>
         (ta = None \<longrightarrow>
            json_get [Key ''msgs'', Idx 0, Key ''value'', Key ''to_address''] doc
              = Some (JStr (mm_bech32Addr a))) \<and>
         (am = None \<longrightarrow>
            json_get [Key ''msgs'', Idx 0, Key ''value'', Key ''amount''] doc
              = Some (JArr [JObj [(''amount'', JStr ''1000000''), (''denom'', JStr ''untrn'')]])) \<and>
         json_get [Key ''fee''] doc
           = Some (JObj [(''amount'', JArr [JObj [(''amount'', JStr ''5000''),
                                                 (''denom'', JStr ''untrn'')]]),
                         (''gas'', JStr ''200000'')])))
   \<and> (Post u body \<in> set (snd (mm_sendTransaction L mw ta am me)) \<longrightarrow>
      (\<exists>(a::mm_address_info) (ms::MsgSend) (ai::AuthInfo) mem sig.
         fst (mm_getAddress L mw) = Inr a \<and>
         body = JSON_stringify (broadcast_request L (mm_now mw) (TxRaw_encode L
                  \<lparr>bodyBytes = TxBody_encode L
                      \<lparr>messages = [\<lparr>typeUrl = ''/cosmos.bank.v1beta1.MsgSend'',
                                     any_value = MsgSend_encode L ms\<rparr>],
                       memo = mem\<rparr>,
                   authInfoBytes = AuthInfo_encode L ai,
                   signatures = [sig]\<rparr>)) 0 \<and>
         fromAddress ms = mm_bech32Addr a \<and>
         (ta = None \<longrightarrow> toAddress ms = mm_bech32Addr a) \<and>
         (am = None \<longrightarrow> send_amount ms = [\<lparr>denom = ''untrn'', amount = ''1000000''\<rparr>]) \<and>
         fee ai = \<lparr>fee_amount = [\<lparr>denom = ''untrn'', amount = ''5000''\<rparr>], gasLimit = 200000\<rparr>))"
proof (intro conjI impI)
  assume "SignMessage m \<in> set (snd (sendTransaction s L w ta am me))"
  from sendTransaction_SignMessage [OF this] obtain a reply where
    h: "getAddress s L w = (Inr a, [WalletConnect])"
       "m = message_to_sign s L
                 (SignDoc_encode L (signDoc_of s L a (account_of_reply reply) ta am me))"
    by blast
  show "\<exists>(a::address_info) (ms::MsgSend) (ai::AuthInfo) mem acc.
         fst (getAddress s L w) = Inr a \<and>
         m = message_to_sign s L (SignDoc_encode L
               \<lparr>sd_bodyBytes = TxBody_encode L
                   \<lparr>messages = [\<lparr>typeUrl = ''/cosmos.bank.v1beta1.MsgSend'',
                                  any_value = MsgSend_encode L ms\<rparr>],
                    memo = mem\<rparr>,
                sd_authInfoBytes = AuthInfo_encode L ai,
                sd_chainId = ''pirin-1'', sd_accountNumber = acc\<rparr>) \<and>
         fromAddress ms = bech32Addr a \<and>
         (ta = None \<longrightarrow> toAddress ms = bech32Addr a) \<and>
         (am = None \<longrightarrow> send_amount ms = [\<lparr>denom = ''unls'', amount = ''1000000''\<rparr>]) \<and>
         fee ai = \<lparr>fee_amount = [\<lparr>denom = ''unls'', amount = ''500''\<rparr>], gasLimit = 200000\<rparr>"
    apply (rule exI [of _ a])
    apply (rule exI [of _ "msgSend_of a ta am"])
    apply (rule exI [of _ "authInfo_of L a (acc_sequence (account_of_reply reply))"])
    apply (rule exI [of _ "js_or me (default_memo s)"])
    apply (rule exI [of _ "acc_accountNumber (account_of_reply reply)"])
    using h
    by (simp add: signDoc_of_def txBody_of_def msgSend_of_def authInfo_of_def CONFIG_def js_or_def)
next
  assume "5 \<le> length (snd (mm_sendTransaction L mw ta am me))"
  from mm_sendTransaction_signed [OF this] obtain a reply rest where
    h: "mm_getAddress L mw = (Inr a, keygen_trace L (ethAddress a))"
       "snd (mm_sendTransaction L mw ta am me) =
             keygen_trace L (ethAddress a) @
             GetAccount (rpc CONFIG_mm) (mm_bech32Addr a) #
             EthRequest ''personal_sign''
               [Some (''0x'' @ toHex L (mm_messageBytes L a (account_of_reply reply) ta am me)),
                ethAddress a] # rest"
    by blast
  show "\<exists>(a::mm_address_info) doc rest.
         fst (mm_getAddress L mw) = Inr a \<and>
         drop 4 (snd (mm_sendTransaction L mw ta am me)) =
           EthRequest ''personal_sign''
             [Some (''0x'' @ toHex L (toUtf8Bytes L (JSON_stringify doc 4))), ethAddress a] # rest \<and>
         json_get [Key ''msgs'', Idx 0, Key ''value'', Key ''from_address''] doc
           = Some (JStr (mm_bech32Addr a)) \<and>
         (ta = None \<longrightarrow>
            json_get [Key ''msgs'', Idx 0, Key ''value'', Key ''to_address''] doc
              = Some (JStr (mm_bech32Addr a))) \<and>
         (am = None \<longrightarrow>
            json_get [Key ''msgs'', Idx 0, Key ''value'', Key ''amount''] doc
              = Some (JArr [JObj [(''amount'', JStr ''1000000''), (''denom'', JStr ''untrn'')]])) \<and>
         json_get [Key ''fee''] doc
           = Some (JObj [(''amount'', JArr [JObj [(''amount'', JStr ''5000''),
                                                 (''denom'', JStr ''untrn'')]]),
                         (''gas'', JStr ''200000'')])"
    apply (rule exI [of _ a])
    apply (rule exI [of _ "exactSignDoc a (account_of_reply reply) ta am me"])
    apply (rule exI [of _ rest])
    using h
    by (simp add: mm_messageBytes_def keygen_trace_def exactSignDoc_def CONFIG_mm_def js_or_def)
next
  assume "Post u body \<in> set (snd (mm_sendTransaction L mw ta am me))"
  from mm_sendTransaction_Post [OF this] obtain a reply sig where
    h: "mm_getAddress L mw = (Inr a, keygen_trace L (ethAddress a))"
       "body = JSON_stringify (broadcast_request L (mm_now mw)
                    (TxRaw_encode L (mm_txRaw_of L a (account_of_reply reply) ta am me sig))) 0"
    by blast
  show "\<exists>(a::mm_address_info) (ms::MsgSend) (ai::AuthInfo) mem sig.
         fst (mm_getAddress L mw) = Inr a \<and>
         body = JSON_stringify (broadcast_request L (mm_now mw) (TxRaw_encode L
                  \<lparr>bodyBytes = TxBody_encode L
                      \<lparr>messages = [\<lparr>typeUrl = ''/cosmos.bank.v1beta1.MsgSend'',
                                     any_value = MsgSend_encode L ms\<rparr>],
                       memo = mem\<rparr>,
                   authInfoBytes = AuthInfo_encode L ai,
                   signatures = [sig]\<rparr>)) 0 \<and>
         fromAddress ms = mm_bech32Addr a \<and>
         (ta = None \<longrightarrow> toAddress ms = mm_bech32Addr a) \<and>
         (am = None \<longrightarrow> send_amount ms = [\<lparr>denom = ''untrn'', amount = ''1000000''\<rparr>]) \<and>
         fee ai = \<lparr>fee_amount = [\<lparr>denom = ''untrn'', amount = ''5000''\<rparr>], gasLimit = 200000\<rparr>"
    apply (rule exI [of _ a])
    apply (rule exI [of _ "mm_msgSend_of a ta am"])
    apply (rule exI [of _ "mm_authInfo_of a (acc_sequence (account_of_reply reply))"])
    apply (rule exI [of _ "js_or me ''Neutron Network transaction''"])
    apply (rule exI [of _ sig])
    using h
    by (simp add: mm_txRaw_of_def mm_txBody_of_def mm_msgSend_of_def mm_authInfo_of_def
          CONFIG_mm_def js_or_def)
qed

text \<open>The sample runs are called without arguments, sign and post.\<close>

theorem C9_defaults_and_fixed_fee_witness:
  "SignMessage (message_to_sign Solflare ref_libs (SignDoc_encode ref_libs
       (signDoc_of Solflare ref_libs sample_address
          \<lparr>acc_accountNumber = 7, acc_sequence = 3\<rparr> None None None)))
     \<in> set (snd (sendTransaction Solflare ref_libs sample_world None None None))
   \<and> (\<exists>(ms::MsgSend) (ai::AuthInfo).
         fromAddress ms = bech32Addr sample_address \<and> toAddress ms = bech32Addr sample_address \<and>
         send_amount ms = [\<lparr>denom = ''unls'', amount = ''1000000''\<rparr>] \<and>
         fee ai = \<lparr>fee_amount = [\<lparr>denom = ''unls'', amount = ''500''\<rparr>], gasLimit = 200000\<rparr>)
   \<and> 5 \<le> length (snd (mm_sendTransaction ref_libs sample_mm_world None None None))
   \<and> (\<exists>doc. json_get [Key ''msgs'', Idx 0, Key ''value'', Key ''to_address''] doc
               = Some (JStr (mm_bech32Addr sample_mm_address)) \<and>
             json_get [Key ''fee''] doc
               = Some (JObj [(''amount'', JArr [JObj [(''amount'', JStr ''5000''),
                                                     (''denom'', JStr ''untrn'')]]),
                             (''gas'', JStr ''200000'')]))
   \<and> (\<exists>body. Post (rpc CONFIG_mm) body
                \<in> set (snd (mm_sendTransaction ref_libs sample_mm_world None None None)))
   \<and> (\<exists>(ms::MsgSend) (ai::AuthInfo).
         toAddress ms = mm_bech32Addr sample_mm_address \<and>
         send_amount ms = [\<lparr>denom = ''untrn'', amount = ''1000000''\<rparr>] \<and>
         fee ai = \<lparr>fee_amount = [\<lparr>denom = ''untrn'', amount = ''5000''\<rparr>], gasLimit = 200000\<rparr>)"
proof -
  let ?m = "message_to_sign Solflare ref_libs (SignDoc_encode ref_libs
       (signDoc_of Solflare ref_libs sample_address
          \<lparr>acc_accountNumber = 7, acc_sequence = 3\<rparr> None None None))"
  let ?b = "JSON_stringify (broadcast_request ref_libs 1700000000000
         (TxRaw_encode ref_libs (mm_txRaw_of ref_libs sample_mm_address
            \<lparr>acc_accountNumber = 7, acc_sequence = 3\<rparr> None None None (replicate 64 0xAB)))) 0"
  have h1: "SignMessage ?m \<in> set (snd (sendTransaction Solflare ref_libs sample_world None None None))"
    by (simp add: sample_sendTransaction)
  have h2: "5 \<le> length (snd (mm_sendTransaction ref_libs sample_mm_world None None None))"
    by (simp add: sample_mm_sendTransaction keygen_trace_def)
  have h3: "Post (rpc CONFIG_mm) ?b
              \<in> set (snd (mm_sendTransaction ref_libs sample_mm_world None None None))"
    by (simp add: sample_mm_sendTransaction)
  note c = C9_defaults_and_fixed_fee [of ?m Solflare ref_libs sample_world None None None
      sample_mm_world "rpc CONFIG_mm" ?b]
  from c [THEN conjunct1, rule_format, OF h1]
  have p1: "\<exists>(ms::MsgSend) (ai::AuthInfo).
         fromAddress ms = bech32Addr sample_address \<and> toAddress ms = bech32Addr sample_address \<and>
         send_amount ms = [\<lparr>denom = ''unls'', amount = ''1000000''\<rparr>] \<and>
         fee ai = \<lparr>fee_amount = [\<lparr>denom = ''unls'', amount = ''500''\<rparr>], gasLimit = 200000\<rparr>"
    by (auto simp: sample_getAddress)
  from c [THEN conjunct2, THEN conjunct1, rule_format, OF h2]
  have p2: "\<exists>doc. json_get [Key ''msgs'', Idx 0, Key ''value'', Key ''to_address''] doc
               = Some (JStr (mm_bech32Addr sample_mm_address)) \<and>
             json_get [Key ''fee''] doc
               = Some (JObj [(''amount'', JArr [JObj [(''amount'', JStr ''5000''),
                                                     (''denom'', JStr ''untrn'')]]),
                             (''gas'', JStr ''200000'')])"
    by (auto simp: sample_mm_getAddress)
  from c [THEN conjunct2, THEN conjunct2, rule_format, OF h3]
  have p3: "\<exists>(ms::MsgSend) (ai::AuthInfo).
         toAddress ms = mm_bech32Addr sample_mm_address \<and>
         send_amount ms = [\<lparr>denom = ''untrn'', amount = ''1000000''\<rparr>] \<and>
         fee ai = \<lparr>fee_amount = [\<lparr>denom = ''untrn'', amount = ''5000''\<rparr>], gasLimit = 200000\<rparr>"
    by (auto simp: sample_mm_getAddress)
  from h1 p1 h2 p2 h3 p3 show ?thesis by blast
qed

section \<open>C10: the unit converters\<close>




section \<open>The scripts that sign the document bytes themselves\<close>

text \<open>
  In the Solflare script and in the first Phantom script, every message passed to
  \<^verbatim>\<open>signMessage\<close> is exactly the encoded \<^verbatim>\<open>SignDoc\<close> built from the transaction body,
  the auth info, the chain id \<^verbatim>\<open>pirin-1\<close> and the account number the node reported, and
  the auth info declares \<^verbatim>\<open>SIGN_MODE_DIRECT\<close>.
\<close>

theorem X1_direct_scripts_sign_signDoc_bytes:
  "s \<noteq> Phantom2 \<and> SignMessage m \<in> set (snd (sendTransaction s L w ta am me)) \<longrightarrow>
     (\<exists>bb (ai::AuthInfo) acc.
        m = SignDoc_encode L
              \<lparr>sd_bodyBytes = bb, sd_authInfoBytes = AuthInfo_encode L ai,
               sd_chainId = ''pirin-1'', sd_accountNumber = acc\<rparr> \<and>
        map modeInfo (signerInfos ai) = [SIGN_MODE_DIRECT])"
proof
  assume h: "s \<noteq> Phantom2 \<and> SignMessage m \<in> set (snd (sendTransaction s L w ta am me))"
  then have "SignMessage m \<in> set (snd (sendTransaction s L w ta am me))" by simp
  from sendTransaction_SignMessage [OF this] obtain a reply where
    m: "m = message_to_sign s L
                 (SignDoc_encode L (signDoc_of s L a (account_of_reply reply) ta am me))"
    by blast
  from h have "message_to_sign s L x = x" for x
    by (cases s) (simp_all add: message_to_sign_def)
  with m show "\<exists>bb (ai::AuthInfo) acc.
        m = SignDoc_encode L
              \<lparr>sd_bodyBytes = bb, sd_authInfoBytes = AuthInfo_encode L ai,
               sd_chainId = ''pirin-1'', sd_accountNumber = acc\<rparr> \<and>
        map modeInfo (signerInfos ai) = [SIGN_MODE_DIRECT]"
    by - (rule exI [of _ "TxBody_encode L (txBody_of s L a ta am me)"],
          rule exI [of _ "authInfo_of L a (acc_sequence (account_of_reply reply))"],
          rule exI [of _ "acc_accountNumber (account_of_reply reply)"],
          simp add: signDoc_of_def authInfo_of_def CONFIG_def)
qed

theorem X1_direct_scripts_sign_signDoc_bytes_witness:
  "Phantom1 \<noteq> Phantom2
   \<and> SignMessage (SignDoc_encode ref_libs
        (signDoc_of Phantom1 ref_libs sample_address
           \<lparr>acc_accountNumber = 7, acc_sequence = 3\<rparr> None None None))
      \<in> set (snd (sendTransaction Phantom1 ref_libs sample_world None None None))
   \<and> (\<exists>bb (ai::AuthInfo) acc.
        SignDoc_encode ref_libs
          (signDoc_of Phantom1 ref_libs sample_address
             \<lparr>acc_accountNumber = 7, acc_sequence = 3\<rparr> None None None)
        = SignDoc_encode ref_libs
              \<lparr>sd_bodyBytes = bb, sd_authInfoBytes = AuthInfo_encode ref_libs ai,
               sd_chainId = ''pirin-1'', sd_accountNumber = acc\<rparr> \<and>
        map modeInfo (signerInfos ai) = [SIGN_MODE_DIRECT])"
proof -
  let ?m = "SignDoc_encode ref_libs
        (signDoc_of Phantom1 ref_libs sample_address
           \<lparr>acc_accountNumber = 7, acc_sequence = 3\<rparr> None None None)"
  have h: "Phantom1 \<noteq> Phantom2 \<and>
           SignMessage ?m \<in> set (snd (sendTransaction Phantom1 ref_libs sample_world None None None))"
    by (simp add: sample_sendTransaction message_to_sign_def)
  from X1_direct_scripts_sign_signDoc_bytes [of Phantom1 ?m ref_libs sample_world None None None] h
  show ?thesis by blast
qed

end
